theory Spec2Isabelle
  imports Complex_Main "HOL-Library.AList" "HOL-Library.List_Lexorder" "HOL-Library.Char_ord"
begin

section \<open>Template compiler cache (class TemplateParser, src/template/parser.ts)\<close>

text \<open>
  The parser keeps its compiled templates in a JavaScript \<open>Map\<close>, whose iteration order is
  the insertion order of the keys. The map is an association list with distinct keys:
  \<open>Map.get\<close> is \<^const>\<open>map_of\<close>, \<open>Map.set\<close> is \<^const>\<open>AList.update\<close> (a present key keeps its
  position, a new key goes to the end), \<open>Map.delete\<close> is \<^const>\<open>AList.delete\<close> and \<open>Map.size\<close> is
  \<^const>\<open>length\<close>. \<open>Date.now()\<close> is an integer number of milliseconds; every reading of the clock is
  an argument of the function that reads it, and nothing is assumed about two readings.
  Durations measured with \<open>performance.now()\<close> are rationals. The compiled ETA function is
  opaque and stands as a natural number that names it.
\<close>

record TemplateFileMetadata =
  path :: string
  lastModified :: int
  size_bytes :: int
  variables :: "string list"
  helpers :: "string list"
  partials :: "string list"
  extends :: "string option"

record TemplateCompilationResult =
  template :: nat
  compilationTime :: rat
  dependencies :: "string list"
  metadata :: TemplateFileMetadata
  cacheKey :: string

record TemplateCacheEntry =
  result :: TemplateCompilationResult
  lastAccessed :: int
  accessCount :: nat
  ttl :: int

type_synonym template_cache = "(string \<times> TemplateCacheEntry) list"

text \<open>\<open>getCachedTemplate\<close>: absent key, expired entry (deleted), or a hit that stamps the entry.\<close>

definition getCachedTemplate ::
  "int \<Rightarrow> string \<Rightarrow> template_cache \<Rightarrow> TemplateCacheEntry option \<times> template_cache" where
  "getCachedTemplate now key cache =
     (case map_of cache key of
        None \<Rightarrow> (None, cache)
      | Some entry \<Rightarrow>
          if now > ttl entry then (None, AList.delete key cache)
          else (let entry' = entry\<lparr>lastAccessed := now, accessCount := accessCount entry + 1\<rparr>
                in (Some entry', AList.update key entry' cache)))"

text \<open>The loop of \<open>evictLeastRecentlyUsed\<close> over the map, carrying \<open>(oldestKey, oldestTime)\<close>.\<close>

fun oldest_scan :: "template_cache \<Rightarrow> string \<times> int \<Rightarrow> string \<times> int" where
  "oldest_scan [] acc = acc"
| "oldest_scan ((key, entry) # rest) (oldestKey, oldestTime) =
     (if lastAccessed entry < oldestTime then oldest_scan rest (key, lastAccessed entry)
      else oldest_scan rest (oldestKey, oldestTime))"

definition evictLeastRecentlyUsed :: "int \<Rightarrow> template_cache \<Rightarrow> template_cache" where
  "evictLeastRecentlyUsed now cache =
     (let oldestKey = fst (oldest_scan cache ('''', now))
      in if oldestKey \<noteq> '''' then AList.delete oldestKey cache else cache)"

text \<open>
  \<open>cacheTemplate\<close>: \<open>now_evict\<close> is the clock read inside \<open>evictLeastRecentlyUsed\<close>, \<open>now\<close> the
  one read for the new entry; the time to live is five minutes.
\<close>

definition cacheTemplate ::
  "int \<Rightarrow> int \<Rightarrow> int \<Rightarrow> string \<Rightarrow> TemplateCompilationResult \<Rightarrow> template_cache \<Rightarrow> template_cache" where
  "cacheTemplate cacheSize now_evict now key res cache =
     (let cache1 = (if int (length cache) \<ge> cacheSize then evictLeastRecentlyUsed now_evict cache
                    else cache);
          entry = \<lparr>result = res, lastAccessed = now, accessCount = 1, ttl = now + 5 * 60 * 1000\<rparr>
      in AList.update key entry cache1)"

section \<open>JavaScript values\<close>

text \<open>
  The values bound to variables are JSON data. Numbers are restricted to integers (a
  non-integer \<open>number\<close> is a floating-point value); \<open>undefined\<close> is the absence of a value,
  \<open>None\<close> in an optional result. An object is the list of its own properties, with distinct
  names. Strings are lists of characters; the library functions that depend on the
  character set (\<open>trim\<close>, \<open>toLowerCase\<close>, \<open>toUpperCase\<close>, the default order of \<open>sort\<close>) are
  modelled on ASCII.
\<close>

datatype json =
    JNull
  | JBool bool
  | JNum int
  | JStr string
  | JArr "json list"
  | JObj "(string \<times> json) list"

definition digit_char :: "nat \<Rightarrow> char" where
  "digit_char d = ''0123456789abcdef'' ! d"

function show_nat :: "nat \<Rightarrow> string" where
  "show_nat n = (if n < 10 then [digit_char n] else show_nat (n div 10) @ [digit_char (n mod 10)])"
  by pat_completeness auto
termination
  by (relation "measure id") auto

declare show_nat.simps [simp del]

definition show_int :: "int \<Rightarrow> string" where
  "show_int i = (if i < 0 then CHR ''-'' # show_nat (nat (- i)) else show_nat (nat i))"

fun join :: "string \<Rightarrow> string list \<Rightarrow> string" where
  "join sep [] = []"
| "join sep [x] = x"
| "join sep (x # y # ys) = x @ sep @ join sep (y # ys)"

text \<open>\<open>String(value)\<close>; an array is joined with commas, \<open>null\<close> elements giving the empty string.\<close>

fun js_String :: "json \<Rightarrow> string" where
  "js_String JNull = ''null''"
| "js_String (JBool b) = (if b then ''true'' else ''false'')"
| "js_String (JNum n) = show_int n"
| "js_String (JStr s) = s"
| "js_String (JArr xs) = join '','' (map (\<lambda>x. if x = JNull then [] else js_String x) xs)"
| "js_String (JObj kvs) = ''[object Object]''"

text \<open>\<open>QuoteJSONString\<close> of ECMA-262: the escapes of \<open>JSON.stringify\<close> for one character.\<close>

definition quote_char :: "char \<Rightarrow> string" where
  "quote_char c =
     (if c = CHR 0x22 then [CHR 0x5C, CHR 0x22]
      else if c = CHR 0x5C then [CHR 0x5C, CHR 0x5C]
      else if c = CHR 0x08 then [CHR 0x5C, CHR ''b'']
      else if c = CHR 0x0C then [CHR 0x5C, CHR ''f'']
      else if c = CHR 0x0A then [CHR 0x5C, CHR ''n'']
      else if c = CHR 0x0D then [CHR 0x5C, CHR ''r'']
      else if c = CHR 0x09 then [CHR 0x5C, CHR ''t'']
      else if (of_char c :: nat) < 32
        then [CHR 0x5C, CHR ''u'', CHR ''0'', CHR ''0'',
              digit_char (of_char c div 16), digit_char (of_char c mod 16)]
      else [c])"

definition quote :: "string \<Rightarrow> string" where
  "quote s = CHR 0x22 # concat (map quote_char s) @ [CHR 0x22]"

text \<open>
  \<open>JSON.stringify(value, replacer)\<close> with an array as \<open>replacer\<close> and no indentation. The
  array is the property list of the serialisation: every object, at every depth, is
  written with the properties of the list that it has, in the order of the list
  (\<open>SerializeJSONObject\<close>: \<open>K\<close> is the property list). Array elements are all written.
\<close>

fun JSON_stringify :: "string list \<Rightarrow> json \<Rightarrow> string" where
  "JSON_stringify K JNull = ''null''"
| "JSON_stringify K (JBool b) = (if b then ''true'' else ''false'')"
| "JSON_stringify K (JNum n) = show_int n"
| "JSON_stringify K (JStr s) = quote s"
| "JSON_stringify K (JArr xs) = ''['' @ join '','' (map (JSON_stringify K) xs) @ '']''"
| "JSON_stringify K (JObj kvs) =
     (let fields = map (\<lambda>(k, v). (k, JSON_stringify K v)) kvs
      in ''{'' @ join '',''
           (List.map_filter (\<lambda>P. map_option (\<lambda>s. quote P @ '':'' @ s) (map_of fields P)) K)
         @ ''}'')"

text \<open>
  \<open>TemplateParser.generateCacheKey\<close>: the property list is
  \<open>Object.keys(variables).sort()\<close>, the names of the top-level variables.
\<close>

definition generateCacheKey :: "string \<Rightarrow> (string \<times> json) list option \<Rightarrow> string" where
  "generateCacheKey templatePath vars =
     (let variableHash =
            (case vars of
               Some vs \<Rightarrow> JSON_stringify (sort (map fst vs)) (JObj vs)
             | None \<Rightarrow> '''')
      in templatePath @ '':'' @ variableHash)"

section \<open>Variable substitution engine (class VariableSubstitutionEngine)\<close>

subsection \<open>String helpers\<close>

definition is_space :: "char \<Rightarrow> bool" where
  "is_space c = (c \<in> set [CHR 0x09, CHR 0x0A, CHR 0x0B, CHR 0x0C, CHR 0x0D, CHR 0x20])"

definition trim :: "string \<Rightarrow> string" where
  "trim s = rev (dropWhile is_space (rev (dropWhile is_space s)))"

text \<open>\<open>str.split(sep)\<close> for a separator of one character: the empty string gives \<open>['''']\<close>.\<close>

fun split_on :: "char \<Rightarrow> string \<Rightarrow> string list" where
  "split_on sep [] = [[]]"
| "split_on sep (c # cs) =
     (if c = sep then [] # split_on sep cs
      else (case split_on sep cs of
              [] \<Rightarrow> [[c]]
            | w # ws \<Rightarrow> (c # w) # ws))"

definition is_lower :: "char \<Rightarrow> bool" where
  "is_lower c = (97 \<le> (of_char c :: nat) \<and> (of_char c :: nat) \<le> 122)"

definition is_upper :: "char \<Rightarrow> bool" where
  "is_upper c = (65 \<le> (of_char c :: nat) \<and> (of_char c :: nat) \<le> 90)"

definition to_lower :: "char \<Rightarrow> char" where
  "to_lower c = (if is_upper c then char_of ((of_char c :: nat) + 32) else c)"

definition to_upper :: "char \<Rightarrow> char" where
  "to_upper c = (if is_lower c then char_of ((of_char c :: nat) - 32) else c)"

definition toLowerCase :: "string \<Rightarrow> string" where
  "toLowerCase s = map to_lower s"

subsection \<open>Interpolation\<close>

text \<open>
  \<open>current?.[key]\<close> on JSON data: an own property of an object; an index or \<open>length\<close> of an
  array or of a string; nothing on \<open>null\<close>, a boolean or a number. Properties inherited
  from the prototypes (\<open>toString\<close>, \<open>constructor\<close>, ...) are functions, outside JSON data.
\<close>

definition index_of_key :: "nat \<Rightarrow> string \<Rightarrow> nat option" where
  "index_of_key n key = List.find (\<lambda>i. show_nat i = key) [0..<n]"

fun get_prop :: "json \<Rightarrow> string \<Rightarrow> json option" where
  "get_prop (JObj kvs) key = map_of kvs key"
| "get_prop (JArr xs) key =
     (if key = ''length'' then Some (JNum (int (length xs)))
      else map_option (\<lambda>i. xs ! i) (index_of_key (length xs) key))"
| "get_prop (JStr s) key =
     (if key = ''length'' then Some (JNum (int (length s)))
      else map_option (\<lambda>i. JStr [s ! i]) (index_of_key (length s) key))"
| "get_prop JNull key = None"
| "get_prop (JBool b) key = None"
| "get_prop (JNum n) key = None"

text \<open>\<open>getNestedValue\<close>: \<open>path.split('.').reduce((current, key) => current?.[key], obj)\<close>.\<close>

definition getNestedValue :: "json \<Rightarrow> string \<Rightarrow> json option" where
  "getNestedValue obj pth =
     foldl (\<lambda>current key. case current of None \<Rightarrow> None | Some v \<Rightarrow> get_prop v key)
       (Some obj) (split_on CHR ''.'' pth)"

text \<open>
  One attempt of the regular expression \<open>/\$\{([^}]+)\}/\<close> at the start of a string: the
  captured name and the text after the closing brace. The class \<open>[^}]\<close> takes every
  character up to the first \<open>}\<close>, so the attempt succeeds exactly when that run is not
  empty and a \<open>}\<close> follows it.
\<close>

definition placeholder_at :: "string \<Rightarrow> (string \<times> string) option" where
  "placeholder_at s =
     (case s of
        c # d # r \<Rightarrow>
          if c = CHR ''$'' \<and> d = CHR ''{'' then
            (let varName = takeWhile (\<lambda>x. x \<noteq> CHR ''}'') r;
                 rest = dropWhile (\<lambda>x. x \<noteq> CHR ''}'') r
             in if varName \<noteq> [] \<and> rest \<noteq> [] then Some (varName, tl rest) else None)
          else None
      | _ \<Rightarrow> None)"

text \<open>
  \<open>interpolateString\<close>: \<open>str.replace\<close> with the global flag scans from left to right; a match
  is replaced by the string form of the value found under the trimmed name, or by the
  match itself when that value is \<open>undefined\<close>, and the scan goes on after the match.
\<close>

function interpolateString :: "string \<Rightarrow> json \<Rightarrow> string" where
  "interpolateString [] vars = []"
| "interpolateString (c # cs) vars =
     (case placeholder_at (c # cs) of
        Some (varName, rest) \<Rightarrow>
          (case getNestedValue vars (trim varName) of
             Some v \<Rightarrow> js_String v
           | None \<Rightarrow> ''${'' @ varName @ ''}'') @ interpolateString rest vars
      | None \<Rightarrow> c # interpolateString cs vars)"
  by pat_completeness auto
termination
proof (relation "measure (\<lambda>(s, vars). length s)")
  show "wf (measure (\<lambda>(s, vars). length s))"
    by simp
next
  fix c :: char and cs vars x2 varName rest
  assume "placeholder_at (c # cs) = Some x2" and "(varName, rest) = x2"
  then obtain r where "rest = tl (dropWhile (\<lambda>x. x \<noteq> CHR ''}'') r)" and "length r < length cs"
    by (auto simp: placeholder_at_def Let_def split: list.splits if_splits)
  moreover have "length (dropWhile (\<lambda>x. x \<noteq> CHR ''}'') r) \<le> length r"
    by (rule length_dropWhile_le)
  ultimately show "((rest, vars), c # cs, vars) \<in> measure (\<lambda>(s, vars). length s)"
    by simp
next
  fix c :: char and cs :: string and vars :: json
  show "((cs, vars), c # cs, vars) \<in> measure (\<lambda>(s, vars). length s)"
    by simp
qed

declare interpolateString.simps(2) [simp del]

fun interpolateObject :: "json \<Rightarrow> json \<Rightarrow> json" where
  "interpolateObject (JArr xs) vars = JArr (map (\<lambda>item. interpolateObject item vars) xs)"
| "interpolateObject (JObj kvs) vars = JObj (map (\<lambda>(key, v). (key, interpolateObject v vars)) kvs)"
| "interpolateObject (JStr s) vars = JStr (interpolateString s vars)"
| "interpolateObject JNull vars = JNull"
| "interpolateObject (JBool b) vars = JBool b"
| "interpolateObject (JNum n) vars = JNum n"

subsection \<open>Contexts, schemas and configuration\<close>

type_synonym js_object = "(string \<times> json) list"

definition obj_set :: "string \<Rightarrow> json \<Rightarrow> js_object \<Rightarrow> js_object" where
  "obj_set key v obj = AList.update key v obj"

text \<open>\<open>Object.assign(target, source)\<close>, also the spread \<open>{...a, ...b}\<close> from the empty object.\<close>

definition obj_assign :: "js_object \<Rightarrow> js_object \<Rightarrow> js_object" where
  "obj_assign target source = foldl (\<lambda>t (key, v). obj_set key v t) target source"

record VariableContext =
  env :: js_object
  user :: js_object
  system :: js_object
  computed :: js_object
  secrets :: js_object

text \<open>
  \<open>TemplateVariableSchema\<close>. A schema read from a descriptor file may lack any field, so the
  name and the type are optional; \<open>default\<close> is \<open>undefined\<close> when it is \<open>None\<close>.
\<close>

record TemplateVariableSchema =
  var_name :: "string option"
  var_type :: "string option"
  var_description :: "string option"
  var_default :: "json option"
  var_required :: bool
  var_pattern :: "string option"
  var_enum :: "json list option"
  var_minimum :: "int option"
  var_maximum :: "int option"

record VariableValidationError =
  variable :: string
  message :: string
  code :: string
  expected :: "string option"
  actual :: "json option"

record VariableValidationResult =
  valid :: bool
  errors :: "VariableValidationError list"
  sanitized :: js_object

record ajv_error =
  instancePath :: string
  ajv_message :: string
  keyword :: string

text \<open>
  What the engine takes from outside the repository: the JSON-schema validator
  (\<open>ajv.validate(name, value)\<close> against the schema registered under \<open>name\<close>: it throws, or
  returns the list of its errors, empty when the value is valid), the digest of
  \<open>node:crypto\<close>, and the conversion of a string to a number of the language (\<open>None\<close> is
  \<open>NaN\<close>).
\<close>

record js_lib =
  ajv_validate :: "string \<Rightarrow> json \<Rightarrow> string + ajv_error list"
  sha256 :: "string \<Rightarrow> string"
  StringToNumber :: "string \<Rightarrow> int option"

record VariableConfig =
  environments :: "(string \<times> js_object) list"
  defaults :: js_object
  transformers :: "(string \<times> (json \<Rightarrow> VariableContext \<Rightarrow> string + json)) list"
  schemas :: "(string \<times> TemplateVariableSchema) list"
  enableCaching :: bool
  cacheTtl :: int

record VariableResolutionOptions =
  environment :: "string option"
  includeSystem :: "bool option"
  includeEnv :: "bool option"
  overrides :: "js_object option"
  skipValidation :: "bool option"
  enableInterpolation :: "bool option"

record VariableCacheEntry =
  cached_context :: VariableContext
  cachedAt :: int
  entry_ttl :: int
  hash :: string

type_synonym context_cache = "(string \<times> VariableCacheEntry) list"

subsection \<open>Coercion and validation\<close>

definition js_Number :: "js_lib \<Rightarrow> json \<Rightarrow> int option" where
  "js_Number lib v =
     (case v of
        JNull \<Rightarrow> Some 0
      | JBool b \<Rightarrow> Some (if b then 1 else 0)
      | JNum n \<Rightarrow> Some n
      | JStr s \<Rightarrow> StringToNumber lib s
      | _ \<Rightarrow> StringToNumber lib (js_String v))"

definition js_Boolean :: "json \<Rightarrow> bool" where
  "js_Boolean v =
     (case v of
        JNull \<Rightarrow> False
      | JBool b \<Rightarrow> b
      | JNum n \<Rightarrow> n \<noteq> 0
      | JStr s \<Rightarrow> s \<noteq> []
      | _ \<Rightarrow> True)"

definition coerceValue :: "js_lib \<Rightarrow> json \<Rightarrow> TemplateVariableSchema \<Rightarrow> string + json" where
  "coerceValue lib v schema =
     (if var_type schema = Some ''string'' then Inr (JStr (js_String v))
      else if var_type schema = Some ''number'' then
        (case js_Number lib v of
           None \<Rightarrow> Inl (''Cannot convert '' @ [CHR 0x27] @ js_String v @ [CHR 0x27] @ '' to number'')
         | Some num \<Rightarrow> Inr (JNum num))
      else if var_type schema = Some ''boolean'' then
        (case v of
           JBool b \<Rightarrow> Inr v
         | JStr s \<Rightarrow>
             (let lower = toLowerCase s
              in if lower = ''true'' \<or> lower = ''1'' \<or> lower = ''yes'' then Inr (JBool True)
                 else if lower = ''false'' \<or> lower = ''0'' \<or> lower = ''no'' then Inr (JBool False)
                 else Inr (JBool (js_Boolean v)))
         | _ \<Rightarrow> Inr (JBool (js_Boolean v)))
      else if var_type schema = Some ''array'' then
        (case v of JArr xs \<Rightarrow> Inr v | _ \<Rightarrow> Inr (JArr [v]))
      else if var_type schema = Some ''object'' then
        (case v of JNull \<Rightarrow> Inr v | JArr xs \<Rightarrow> Inr v | JObj kvs \<Rightarrow> Inr v | _ \<Rightarrow> Inr (JObj []))
      else Inr v)"

text \<open>The body of the first loop of \<open>validateVariables\<close>, for one entry of \<open>variables\<close>.\<close>

definition validate_entry ::
  "js_lib \<Rightarrow> VariableConfig \<Rightarrow> VariableValidationError list \<times> js_object \<Rightarrow> string \<times> json
     \<Rightarrow> VariableValidationError list \<times> js_object" where
  "validate_entry lib config acc entry =
     (let errs = fst acc; san = snd acc; name = fst entry; v = snd entry
      in case map_of (schemas config) name of
           None \<Rightarrow> (errs, obj_set name v san)
         | Some schema \<Rightarrow>
             (let thrown = (\<lambda>msg. \<lparr>variable = name, message = msg, code = ''coercion_error'',
                                    expected = var_type schema, actual = Some v\<rparr>)
              in case coerceValue lib v schema of
                   Inl msg \<Rightarrow> (errs @ [thrown msg], san)
                 | Inr coercedValue \<Rightarrow>
                     (case ajv_validate lib name coercedValue of
                        Inl msg \<Rightarrow> (errs @ [thrown msg], san)
                      | Inr [] \<Rightarrow> (errs, obj_set name coercedValue san)
                      | Inr ajvErrors \<Rightarrow>
                          (errs @ map (\<lambda>ajvError.
                              \<lparr>variable = name,
                               message = instancePath ajvError @ '' '' @ ajv_message ajvError,
                               code = (if keyword ajvError = [] then ''validation_error''
                                       else keyword ajvError),
                               expected = var_type schema, actual = Some v\<rparr>) ajvErrors,
                           san))))"

text \<open>The error pushed for a required variable that is missing and has no default.\<close>

definition required_missing :: "string \<Rightarrow> VariableValidationError" where
  "required_missing name =
     \<lparr>variable = name,
      message = ''Required variable '' @ [CHR 0x27] @ name @ [CHR 0x27] @ '' is missing'',
      code = ''required_missing'', expected = None, actual = None\<rparr>"

text \<open>The body of the second loop, for one entry of \<open>config.schemas\<close>.\<close>

definition required_entry ::
  "js_object \<Rightarrow> VariableValidationError list \<times> js_object \<Rightarrow> string \<times> TemplateVariableSchema
     \<Rightarrow> VariableValidationError list \<times> js_object" where
  "required_entry vars acc entry =
     (let errs = fst acc; san = snd acc; name = fst entry; schema = snd entry
      in if var_required schema \<and> name \<notin> fst ` set vars then
           (case var_default schema of
              Some d \<Rightarrow> (errs, obj_set name d san)
            | None \<Rightarrow>
                (errs @ [required_missing name], san))
         else (errs, san))"

definition validateVariables :: "js_lib \<Rightarrow> VariableConfig \<Rightarrow> js_object \<Rightarrow> VariableValidationResult" where
  "validateVariables lib config vars =
     (let acc1 = foldl (validate_entry lib config) ([], []) vars;
          acc2 = foldl (required_entry vars) acc1 (schemas config)
      in \<lparr>valid = (fst acc2 = []), errors = fst acc2, sanitized = snd acc2\<rparr>)"

subsection \<open>Transformation, derived variables, interpolation of a layer\<close>

definition applyTransformations :: "VariableConfig \<Rightarrow> js_object \<Rightarrow> VariableContext \<Rightarrow> js_object" where
  "applyTransformations config vars ctx =
     foldl (\<lambda>transformed (name, transformer).
              case map_of transformed name of
                None \<Rightarrow> transformed
              | Some cur \<Rightarrow>
                  (case transformer cur ctx of
                     Inl err \<Rightarrow> transformed
                   | Inr v \<Rightarrow> obj_set name v transformed))
       (obj_assign [] vars) (transformers config)"

text \<open>
  \<open>str.replace(/([a-z])([A-Z])/g, '$1' + sep + '$2')\<close>: a match is a lower-case letter followed
  by an upper-case one, and the scan goes on after the match.
\<close>

fun separate_words :: "string \<Rightarrow> string \<Rightarrow> string" where
  "separate_words sep (c # d # r) =
     (if is_lower c \<and> is_upper d then c # sep @ d # separate_words sep r
      else c # separate_words sep (d # r))"
| "separate_words sep [c] = [c]"
| "separate_words sep [] = []"

definition toKebabCase :: "string \<Rightarrow> string" where
  "toKebabCase str = toLowerCase (separate_words ''-'' str)"

definition toSnakeCase :: "string \<Rightarrow> string" where
  "toSnakeCase str = toLowerCase (separate_words ''_'' str)"

text \<open>
  \<open>str.replace(/[-_\s]+(.)?/g, (_, char) => char ? char.toUpperCase() : '')\<close>: every run of
  separators is dropped and the character after it, if any, is put in upper case. The
  flag says that a run of separators has just been read.
\<close>

fun camel_scan :: "bool \<Rightarrow> string \<Rightarrow> string" where
  "camel_scan after_sep [] = []"
| "camel_scan after_sep (c # cs) =
     (if c = CHR ''-'' \<or> c = CHR ''_'' \<or> is_space c then camel_scan True cs
      else (if after_sep then to_upper c else c) # camel_scan False cs)"

definition toCamelCase :: "string \<Rightarrow> string" where
  "toCamelCase str = camel_scan False str"

definition toPascalCase :: "string \<Rightarrow> string" where
  "toPascalCase str =
     (let camel = toCamelCase str
      in case camel of [] \<Rightarrow> [] | c # cs \<Rightarrow> to_upper c # cs)"

text \<open>
  What one call of \<open>resolveVariables\<close> reads from its surroundings: the clock at the cache
  lookup and at the cache insertion, \<open>process.env\<close>, the outcome of \<open>loadSystemVariables\<close>
  (the calls into \<open>node:os\<close> may throw), and the ten entries that \<open>computeVariables\<close>
  derives from the clock and the process (\<open>timestamp\<close>, \<open>date\<close>, \<open>time\<close>, \<open>year\<close>, \<open>month\<close>,
  \<open>day\<close>, \<open>platform\<close>, \<open>arch\<close>, \<open>nodeVersion\<close>, \<open>cwd\<close>), in that order.
\<close>

record resolve_world =
  t_lookup :: int
  t_cache :: int
  process_env :: "(string \<times> string) list"
  loadSystemVariables :: "string + js_object"
  clock_and_process :: js_object

definition loadEnvironmentVariables :: "resolve_world \<Rightarrow> js_object" where
  "loadEnvironmentVariables w = obj_assign [] (map (\<lambda>(key, v). (key, JStr v)) (process_env w))"

text \<open>
  \<open>computeVariables\<close>. The case conversions call \<open>str.replace\<close>: a truthy \<open>projectName\<close> that
  is not a string raises a \<open>TypeError\<close>.
\<close>

definition computeVariables :: "resolve_world \<Rightarrow> VariableContext \<Rightarrow> string + js_object" where
  "computeVariables w ctx =
     (let computed0 = obj_assign [] (clock_and_process w)
      in case map_of (user ctx) ''projectName'' of
           None \<Rightarrow> Inr computed0
         | Some v \<Rightarrow>
             if js_Boolean v then
               (case v of
                  JStr s \<Rightarrow>
                    Inr (obj_set ''projectNameSnake'' (JStr (toSnakeCase s))
                        (obj_set ''projectNamePascal'' (JStr (toPascalCase s))
                        (obj_set ''projectNameCamel'' (JStr (toCamelCase s))
                        (obj_set ''projectNameKebab'' (JStr (toKebabCase s)) computed0))))
                | _ \<Rightarrow> Inl ''str.replace is not a function'')
             else Inr computed0)"

text \<open>
  \<open>interpolateVariables\<close>: the placeholders are looked up in the spread of the four
  layers \<open>env\<close>, \<open>system\<close>, \<open>user\<close>, \<open>computed\<close>, later layers overwriting earlier ones. Of a
  top-level array only the elements that are strings are interpolated.
\<close>

definition allVariables :: "VariableContext \<Rightarrow> json" where
  "allVariables ctx =
     JObj (obj_assign (obj_assign (obj_assign (obj_assign [] (env ctx)) (system ctx)) (user ctx))
             (computed ctx))"

definition interpolate_value :: "json \<Rightarrow> json \<Rightarrow> json" where
  "interpolate_value v vars =
     (case v of
        JStr s \<Rightarrow> JStr (interpolateString s vars)
      | JArr xs \<Rightarrow>
          JArr (map (\<lambda>item. case item of JStr s \<Rightarrow> JStr (interpolateString s vars) | _ \<Rightarrow> item) xs)
      | JObj kvs \<Rightarrow> interpolateObject v vars
      | _ \<Rightarrow> v)"

definition interpolateVariables :: "js_object \<Rightarrow> VariableContext \<Rightarrow> js_object" where
  "interpolateVariables vars ctx =
     foldl (\<lambda>interpolated (key, v). obj_set key (interpolate_value v (allVariables ctx)) interpolated)
       [] vars"

subsection \<open>The context cache and \<open>resolveVariables\<close>\<close>

definition options_object :: "VariableResolutionOptions \<Rightarrow> js_object" where
  "options_object opts =
     (case environment opts of None \<Rightarrow> [] | Some e \<Rightarrow> [(''environment'', JStr e)]) @
     (case includeSystem opts of None \<Rightarrow> [] | Some b \<Rightarrow> [(''includeSystem'', JBool b)]) @
     (case includeEnv opts of None \<Rightarrow> [] | Some b \<Rightarrow> [(''includeEnv'', JBool b)]) @
     (case overrides opts of None \<Rightarrow> [] | Some obj \<Rightarrow> [(''overrides'', JObj obj)]) @
     (case skipValidation opts of None \<Rightarrow> [] | Some b \<Rightarrow> [(''skipValidation'', JBool b)]) @
     (case enableInterpolation opts of None \<Rightarrow> [] | Some b \<Rightarrow> [(''enableInterpolation'', JBool b)])"

text \<open>
  \<open>VariableSubstitutionEngine.generateCacheKey\<close>: the digest of
  \<open>JSON.stringify({ userVariables, options }, Object.keys({ ...userVariables, ...options }).sort())\<close>.
\<close>

definition generateContextCacheKey ::
  "js_lib \<Rightarrow> js_object \<Rightarrow> VariableResolutionOptions \<Rightarrow> string" where
  "generateContextCacheKey lib userVariables opts =
     (let K = sort (map fst (obj_assign (obj_assign [] userVariables) (options_object opts)));
          data = JSON_stringify K
                   (JObj [(''userVariables'', JObj userVariables),
                          (''options'', JObj (options_object opts))])
      in sha256 lib data)"

definition getCachedContext ::
  "int \<Rightarrow> string \<Rightarrow> context_cache \<Rightarrow> VariableCacheEntry option \<times> context_cache" where
  "getCachedContext now key cache =
     (case map_of cache key of
        None \<Rightarrow> (None, cache)
      | Some entry \<Rightarrow>
          if now > entry_ttl entry then (None, AList.delete key cache)
          else (Some entry, cache))"

definition cacheContext ::
  "VariableConfig \<Rightarrow> int \<Rightarrow> string \<Rightarrow> VariableContext \<Rightarrow> context_cache \<Rightarrow> context_cache" where
  "cacheContext config now key ctx cache =
     AList.update key
       \<lparr>cached_context = ctx, cachedAt = now, entry_ttl = now + cacheTtl config, hash = key\<rparr> cache"

text \<open>
  The four merges into \<open>context.user\<close>, in increasing precedence: the configuration of
  the environment, the defaults, the variables of the caller, the overrides.
\<close>

definition merge_user_layers ::
  "VariableConfig \<Rightarrow> js_object \<Rightarrow> VariableResolutionOptions \<Rightarrow> js_object" where
  "merge_user_layers config userVariables opts =
     (let user1 = (case environment opts of
                     None \<Rightarrow> []
                   | Some e \<Rightarrow>
                       if e = [] then []
                       else obj_assign []
                              (case map_of (environments config) e of
                                 None \<Rightarrow> [] | Some envConfig \<Rightarrow> envConfig));
          user2 = obj_assign user1 (defaults config);
          user3 = obj_assign user2 userVariables
      in case overrides opts of None \<Rightarrow> user3 | Some ov \<Rightarrow> obj_assign user3 ov)"

text \<open>
  The body of \<open>resolveVariables\<close> between the cache lookup and the cache insertion; \<open>Inl\<close>
  is the message of the exception that leaves the function.
\<close>

definition build_context ::
  "js_lib \<Rightarrow> VariableConfig \<Rightarrow> resolve_world \<Rightarrow> js_object \<Rightarrow> VariableResolutionOptions
     \<Rightarrow> string + VariableContext" where
  "build_context lib config w userVariables opts =
     (let env1 = (if includeEnv opts \<noteq> Some False then loadEnvironmentVariables w else [])
      in case (if includeSystem opts \<noteq> Some False then loadSystemVariables w else Inr []) of
           Inl err \<Rightarrow> Inl err
         | Inr system1 \<Rightarrow>
             (let user4 = merge_user_layers config userVariables opts;
                  validation = validateVariables lib config user4
              in if skipValidation opts \<noteq> Some True \<and> \<not> valid validation then
                   Inl (''Variable validation failed: '' @ join '', '' (map message (errors validation)))
                 else
                   (let user5 = (if skipValidation opts \<noteq> Some True then sanitized validation
                                 else user4);
                        ctx5 = \<lparr>env = env1, user = user5, system = system1, computed = [],
                                secrets = []\<rparr>;
                        ctx6 = ctx5\<lparr>user := applyTransformations config user5 ctx5\<rparr>
                    in case computeVariables w ctx6 of
                         Inl err \<Rightarrow> Inl err
                       | Inr computed1 \<Rightarrow>
                           (let ctx7 = ctx6\<lparr>computed := computed1\<rparr>;
                                ctx8 = (if enableInterpolation opts \<noteq> Some False then
                                          (let c = ctx7\<lparr>user := interpolateVariables (user ctx7) ctx7\<rparr>
                                           in c\<lparr>computed := interpolateVariables (computed c) c\<rparr>)
                                        else ctx7)
                            in Inr (ctx8\<lparr>secrets := []\<rparr>)))))"

definition resolveVariables ::
  "js_lib \<Rightarrow> VariableConfig \<Rightarrow> resolve_world \<Rightarrow> context_cache \<Rightarrow> js_object
     \<Rightarrow> VariableResolutionOptions \<Rightarrow> (string + VariableContext) \<times> context_cache" where
  "resolveVariables lib config w cache userVariables opts =
     (let key = generateContextCacheKey lib userVariables opts;
          looked = (if enableCaching config then getCachedContext (t_lookup w) key cache
                    else (None, cache))
      in case fst looked of
           Some cached \<Rightarrow> (Inr (cached_context cached), snd looked)
         | None \<Rightarrow>
             (case build_context lib config w userVariables opts of
                Inl err \<Rightarrow> (Inl err, snd looked)
              | Inr ctx \<Rightarrow>
                  (Inr ctx,
                   if enableCaching config then cacheContext config (t_cache w) key ctx (snd looked)
                   else snd looked)))"

section \<open>Compilation with the cache (\<open>TemplateParser.parseTemplate\<close>)\<close>

record TemplateParserConfig =
  templateRoot :: string
  cacheSize :: int
  enableInheritance :: bool

record performanceMetrics =
  cacheHits :: nat
  cacheMisses :: nat
  totalCompilations :: nat
  averageCompilationTime :: rat
  totalProcessingTime :: rat

record parser_state =
  cache :: template_cache
  metrics :: performanceMetrics

record parse_options =
  skipCache :: "bool option"
  parse_variables :: "js_object option"

text \<open>
  What one call of \<open>parseTemplate\<close> reads from its surroundings: the three readings of the
  clock (in \<open>getCachedTemplate\<close>, in \<open>evictLeastRecentlyUsed\<close>, in \<open>cacheTemplate\<close>), the file
  system (\<open>readFile\<close>), the extraction of the metadata (\<open>analyzeTemplate\<close>, which calls \<open>stat\<close>),
  the substitution of the blocks of a parent template (\<open>processInheritance\<close>) and the ETA
  compiler with the time it took. Each of them may throw.
\<close>

record parse_world =
  pt_lookup :: int
  pt_evict :: int
  pt_insert :: int
  readFile :: "string \<Rightarrow> string + string"
  analyzeTemplate :: "string \<Rightarrow> string \<Rightarrow> string + TemplateFileMetadata"
  processInheritance :: "string \<Rightarrow> string \<Rightarrow> string + string"
  eta_compile :: "string \<Rightarrow> string \<Rightarrow> string + nat \<times> rat"

definition updatePerformanceMetrics :: "rat \<Rightarrow> performanceMetrics \<Rightarrow> performanceMetrics" where
  "updatePerformanceMetrics t m =
     (let n = totalCompilations m + 1; total = totalProcessingTime m + t
      in m\<lparr>totalCompilations := n, totalProcessingTime := total,
           averageCompilationTime := total / of_nat n\<rparr>)"

definition compilation_failed :: "string \<Rightarrow> string \<Rightarrow> string" where
  "compilation_failed templatePath msg =
     ''Template compilation failed for '' @ templatePath @ '': '' @ msg"

text \<open>
  \<open>parseTemplate\<close>; \<open>resolve\<close> is \<open>path.resolve\<close>. The result is the value returned or the
  message of the error thrown, with the state of the parser after the call.
\<close>

definition parseTemplate ::
  "(string \<Rightarrow> string \<Rightarrow> string) \<Rightarrow> TemplateParserConfig \<Rightarrow> parse_world \<Rightarrow> parser_state
     \<Rightarrow> string \<Rightarrow> parse_options \<Rightarrow> (string + TemplateCompilationResult) \<times> parser_state" where
  "parseTemplate resolve config w s templatePath opts =
     (let resolvedPath = resolve (templateRoot config) templatePath;
          key = generateCacheKey resolvedPath (parse_variables opts);
          looked = (if skipCache opts \<noteq> Some True then getCachedTemplate (pt_lookup w) key (cache s)
                    else (None, cache s))
      in case fst looked of
           Some cached \<Rightarrow>
             (Inr (result cached),
              s\<lparr>cache := snd looked, metrics := (metrics s)\<lparr>cacheHits := cacheHits (metrics s) + 1\<rparr>\<rparr>)
         | None \<Rightarrow>
             (let s1 = s\<lparr>cache := snd looked,
                         metrics := (metrics s)\<lparr>cacheMisses := cacheMisses (metrics s) + 1\<rparr>\<rparr>;
                  thrown = (\<lambda>msg. (Inl (compilation_failed templatePath msg), s1))
              in case readFile w resolvedPath of
                   Inl msg \<Rightarrow> thrown msg
                 | Inr templateContent \<Rightarrow>
                     (case analyzeTemplate w resolvedPath templateContent of
                        Inl msg \<Rightarrow> thrown msg
                      | Inr md \<Rightarrow>
                          (case (case extends md of
                                   Some parent \<Rightarrow>
                                     if enableInheritance config \<and> parent \<noteq> []
                                     then processInheritance w templateContent parent
                                     else Inr templateContent
                                 | None \<Rightarrow> Inr templateContent) of
                             Inl msg \<Rightarrow> thrown msg
                           | Inr processedContent \<Rightarrow>
                               (case eta_compile w processedContent resolvedPath of
                                  Inl msg \<Rightarrow> thrown msg
                                | Inr (tpl, time) \<Rightarrow>
                                    (let res = \<lparr>template = tpl, compilationTime = time,
                                               dependencies = partials md, metadata = md,
                                               cacheKey = key\<rparr>
                                     in (Inr res,
                                         s1\<lparr>cache := cacheTemplate (cacheSize config) (pt_evict w)
                                                         (pt_insert w) key res (cache s1),
                                            metrics := updatePerformanceMetrics time (metrics s1)\<rparr>)))))))"

section \<open>Template registry (class TemplateRegistry)\<close>

text \<open>
  A descriptor is parsed from a \<open>template.json\<close> file; the registry accepts it when it has a
  name, a version, a description, an author and a license, and the engine also reads
  descriptors from a local path with no check, so any field may be missing.
\<close>

record TemplateDependency =
  dep_name :: "string option"
  dep_version :: "string option"
  dep_type :: "string option"
  dep_optional :: bool

record TemplateFileConfig =
  file_source :: "string option"
  file_destination :: "string option"
  file_type :: "string option"

record SecurityStatus =
  scan_status :: string
  scan_score :: int

record TemplateMetadata =
  name :: "string option"
  version :: "string option"
  description :: "string option"
  author :: "string option"
  license :: "string option"
  template_dependencies :: "TemplateDependency list option"
  template_variables :: "TemplateVariableSchema list option"
  files :: "TemplateFileConfig list option"
  securityStatus :: "SecurityStatus option"

text \<open>
  The two functions of the \<open>semver\<close> package that \<open>getTemplate\<close> calls:
  \<open>satisfies(version, range)\<close>, which never throws, and \<open>rcompare(a, b)\<close>, which throws on a
  string that is not a version.
\<close>

record semver_lib =
  satisfies :: "string \<Rightarrow> string \<Rightarrow> bool"
  rcompare :: "string \<Rightarrow> string \<Rightarrow> string + int"

text \<open>
  \<open>Array.prototype.sort\<close> with a comparison function: the sort is stable, and an exception
  of the comparison leaves it. Insertion from the right keeps equal elements in their
  order.
\<close>

fun insert_by :: "('a \<Rightarrow> 'a \<Rightarrow> string + int) \<Rightarrow> 'a \<Rightarrow> 'a list \<Rightarrow> string + 'a list" where
  "insert_by cmp x [] = Inr [x]"
| "insert_by cmp x (y # ys) =
     (case cmp x y of
        Inl err \<Rightarrow> Inl err
      | Inr c \<Rightarrow>
          if c \<le> 0 then Inr (x # y # ys)
          else (case insert_by cmp x ys of Inl err \<Rightarrow> Inl err | Inr zs \<Rightarrow> Inr (y # zs)))"

fun sort_by :: "('a \<Rightarrow> 'a \<Rightarrow> string + int) \<Rightarrow> 'a list \<Rightarrow> string + 'a list" where
  "sort_by cmp [] = Inr []"
| "sort_by cmp (x # xs) =
     (case sort_by cmp xs of Inl err \<Rightarrow> Inl err | Inr ys \<Rightarrow> insert_by cmp x ys)"

definition compare_versions :: "semver_lib \<Rightarrow> TemplateMetadata \<Rightarrow> TemplateMetadata \<Rightarrow> string + int" where
  "compare_versions sv a b =
     (case (version a, version b) of
        (Some va, Some vb) \<Rightarrow> rcompare sv va vb
      | _ \<Rightarrow> Inl ''Invalid Version'')"

text \<open>
  \<open>getTemplate\<close>; \<open>discovered\<close> is the outcome of \<open>discoverTemplates()\<close>, the descriptors in the
  order of discovery (the sort by name that ends the discovery is stable), and \<open>None\<close> is
  the \<open>null\<close> result. An empty version string is falsy, like no version.
\<close>

definition getTemplate ::
  "semver_lib \<Rightarrow> string + TemplateMetadata list \<Rightarrow> string \<Rightarrow> string option \<Rightarrow> TemplateMetadata option" where
  "getTemplate sv discovered nm ver =
     (case discovered of
        Inl err \<Rightarrow> None
      | Inr templates \<Rightarrow>
          (let matchingTemplates = filter (\<lambda>t. name t = Some nm) templates;
               latest = (case sort_by (compare_versions sv) matchingTemplates of
                           Inl err \<Rightarrow> None
                         | Inr sortedTemplates \<Rightarrow>
                             (case sortedTemplates of [] \<Rightarrow> None | t # ts \<Rightarrow> Some t))
           in if matchingTemplates = [] then None
              else (case ver of
                      None \<Rightarrow> latest
                    | Some v \<Rightarrow>
                        if v = [] then latest
                        else (case List.find (\<lambda>t. version t = Some v) matchingTemplates of
                                Some exactMatch \<Rightarrow> Some exactMatch
                              | None \<Rightarrow>
                                  List.find (\<lambda>t. case version t of
                                                    Some tv \<Rightarrow> satisfies sv tv v
                                                  | None \<Rightarrow> False) matchingTemplates))))"

subsection \<open>Semantic versions\<close>

text \<open>
  Modelled from the spec: the \<open>semver\<close> package is not part of the repository. The spec
  asks for the ordering and the ranges of the semantic-versioning specification; the
  model covers versions \<open>MAJOR.MINOR.PATCH\<close> of decimal numbers without leading zeros, and
  the ranges that are one such version (equality), \<open>^version\<close> (no change of the leftmost
  non-zero component) and \<open>~version\<close> (no change of major and minor). Any other string is
  not a version, and no version satisfies any other range.
\<close>

definition is_digit :: "char \<Rightarrow> bool" where
  "is_digit c = (48 \<le> (of_char c :: nat) \<and> (of_char c :: nat) \<le> 57)"

definition digits_value :: "string \<Rightarrow> nat" where
  "digits_value s = foldl (\<lambda>acc c. 10 * acc + ((of_char c :: nat) - 48)) 0 s"

definition parse_number :: "string \<Rightarrow> nat option" where
  "parse_number s =
     (if s \<noteq> [] \<and> list_all is_digit s \<and> (length s = 1 \<or> hd s \<noteq> CHR ''0'')
      then Some (digits_value s) else None)"

definition parse_version :: "string \<Rightarrow> (nat \<times> nat \<times> nat) option" where
  "parse_version s =
     (case split_on CHR ''.'' s of
        [a, b, c] \<Rightarrow>
          (case (parse_number a, parse_number b, parse_number c) of
             (Some x, Some y, Some z) \<Rightarrow> Some (x, y, z)
           | _ \<Rightarrow> None)
      | _ \<Rightarrow> None)"

definition version_less :: "nat \<times> nat \<times> nat \<Rightarrow> nat \<times> nat \<times> nat \<Rightarrow> bool" where
  "version_less a b =
     (case (a, b) of
        ((x1, y1, z1), (x2, y2, z2)) \<Rightarrow>
          x1 < x2 \<or> (x1 = x2 \<and> (y1 < y2 \<or> (y1 = y2 \<and> z1 < z2))))"

definition semver_compare :: "nat \<times> nat \<times> nat \<Rightarrow> nat \<times> nat \<times> nat \<Rightarrow> int" where
  "semver_compare a b = (if version_less a b then - 1 else if version_less b a then 1 else 0)"

definition semver_rcompare :: "string \<Rightarrow> string \<Rightarrow> string + int" where
  "semver_rcompare a b =
     (case (parse_version a, parse_version b) of
        (Some va, Some vb) \<Rightarrow> Inr (semver_compare vb va)
      | _ \<Rightarrow> Inl ''Invalid Version'')"

definition caret_bound :: "nat \<times> nat \<times> nat \<Rightarrow> nat \<times> nat \<times> nat" where
  "caret_bound v =
     (case v of
        (x, y, z) \<Rightarrow>
          if x > 0 then (x + 1, 0, 0) else if y > 0 then (0, y + 1, 0) else (0, 0, z + 1))"

definition tilde_bound :: "nat \<times> nat \<times> nat \<Rightarrow> nat \<times> nat \<times> nat" where
  "tilde_bound v = (case v of (x, y, z) \<Rightarrow> (x, y + 1, 0))"

definition semver_satisfies :: "string \<Rightarrow> string \<Rightarrow> bool" where
  "semver_satisfies v rng =
     (case parse_version v of
        None \<Rightarrow> False
      | Some ver \<Rightarrow>
          (case rng of
             [] \<Rightarrow> False
           | c # r \<Rightarrow>
               if c = CHR ''^'' then
                 (case parse_version r of
                    None \<Rightarrow> False
                  | Some lo \<Rightarrow> \<not> version_less ver lo \<and> version_less ver (caret_bound lo))
               else if c = CHR ''~'' then
                 (case parse_version r of
                    None \<Rightarrow> False
                  | Some lo \<Rightarrow> \<not> version_less ver lo \<and> version_less ver (tilde_bound lo))
               else
                 (case parse_version rng of
                    None \<Rightarrow> False
                  | Some x \<Rightarrow> ver = x)))"

definition semver :: semver_lib where
  "semver = \<lparr>satisfies = semver_satisfies, rcompare = semver_rcompare\<rparr>"

section \<open>Orchestrator (class TemplateEngine, src/template/engine.ts)\<close>









section \<open>Batch file processor (class StreamingFileProcessor)\<close>

record file_stats =
  st_size :: int
  st_mode :: nat

record ProcessingOptions =
  skipBinary :: bool
  preservePermissions :: bool
  incremental :: bool
  filters :: "(string \<Rightarrow> file_stats \<Rightarrow> bool) list"
  templateExtensions :: "string list"
  maxFileSize :: int
  enableCompression :: bool

record ProcessingJob =
  job_id :: string
  sourcePath :: string
  destinationPath :: string
  job_variables :: js_object
  job_options :: ProcessingOptions

datatype file_status = Success | Skipped | Error

record FileProcessingResult =
  res_sourcePath :: string
  res_destinationPath :: string
  status :: file_status
  processingTime :: rat
  fileSize :: int
  error :: "string option"
  templated :: bool

record BatchProcessingResult =
  totalFiles :: nat
  successCount :: nat
  skippedCount :: nat
  errorCount :: nat
  totalTime :: rat
  results :: "FileProcessingResult list"

text \<open>
  What the processor reads from its surroundings, for each path: the file system
  (\<open>mkdir\<close> of the parent of a destination, \<open>stat\<close>, \<open>copyFile\<close>, the stream copy, \<open>chmod\<close>, the
  first 1024 bytes of a file), the MIME table, the extension of a path in lower case,
  the outcome of compiling, rendering and writing a template file
  (\<open>processTemplateFile\<close>), the time a job took, the files found by the glob and the
  destination path of a file. For the operations that may throw, \<open>Some\<close> or \<open>Inl\<close> carries
  the message of the exception.
\<close>

record fs_world =
  mkdir_parent :: "string \<Rightarrow> string option"
  stat :: "string \<Rightarrow> string + file_stats"
  getMimeType :: "string \<Rightarrow> string option"
  read_head :: "string \<Rightarrow> string + nat list"
  copyFile :: "string \<Rightarrow> string \<Rightarrow> string option"
  streamCopyFile :: "string \<Rightarrow> string \<Rightarrow> string option"
  processTemplateFile :: "string \<Rightarrow> string \<Rightarrow> js_object \<Rightarrow> string option"
  chmod :: "string \<Rightarrow> nat \<Rightarrow> string option"
  extname_lower :: "string \<Rightarrow> string"
  elapsed :: "string \<Rightarrow> rat"
  fastGlob :: "string \<Rightarrow> string + string list"
  destination_of :: "string \<Rightarrow> string \<Rightarrow> string \<Rightarrow> string"

definition shouldProcessFile :: "string \<Rightarrow> file_stats \<Rightarrow> ProcessingOptions \<Rightarrow> bool" where
  "shouldProcessFile filePath stats opts =
     (if st_size stats > maxFileSize opts then False
      else list_all (\<lambda>filter. filter filePath stats) (filters opts))"

definition isBinaryFile :: "fs_world \<Rightarrow> string \<Rightarrow> bool" where
  "isBinaryFile w filePath =
     (let by_content = (case read_head w filePath of
                          Inl err \<Rightarrow> False
                        | Inr bytes \<Rightarrow> 0 \<in> set (take 1024 bytes))
      in case getMimeType w filePath of
           Some mimeType \<Rightarrow>
             if mimeType \<noteq> [] \<and> take 5 mimeType \<noteq> ''text/'' then True else by_content
         | None \<Rightarrow> by_content)"

definition isTemplateFile :: "fs_world \<Rightarrow> string \<Rightarrow> string list \<Rightarrow> bool" where
  "isTemplateFile w filePath exts = (extname_lower w filePath \<in> set exts)"

text \<open>
  The \<open>try\<close> block of \<open>processFile\<close>: \<open>Inl\<close> is the message of an exception thrown in it, \<open>Inr\<close>
  the result it returns.
\<close>

definition processFile_try ::
  "fs_world \<Rightarrow> string \<Rightarrow> string \<Rightarrow> js_object \<Rightarrow> ProcessingOptions \<Rightarrow> string + FileProcessingResult" where
  "processFile_try w src dst vars opts =
     (let done = (\<lambda>st size tpl.
                    \<lparr>res_sourcePath = src, res_destinationPath = dst, status = st,
                     processingTime = elapsed w src, fileSize = size, error = None,
                     templated = tpl\<rparr>)
      in case mkdir_parent w dst of
           Some msg \<Rightarrow> Inl msg
         | None \<Rightarrow>
             (case stat w src of
                Inl msg \<Rightarrow> Inl msg
              | Inr stats \<Rightarrow>
                  if \<not> shouldProcessFile src stats opts then Inr (done Skipped (st_size stats) False)
                  else if isBinaryFile w src \<and> skipBinary opts then
                    (case copyFile w src dst of
                       Some msg \<Rightarrow> Inl msg
                     | None \<Rightarrow>
                         (case (if preservePermissions opts then chmod w dst (st_mode stats)
                                else None) of
                            Some msg \<Rightarrow> Inl msg
                          | None \<Rightarrow> Inr (done Success (st_size stats) False)))
                  else
                    (let isTemplate = isTemplateFile w src (templateExtensions opts)
                     in case (if isTemplate then processTemplateFile w src dst vars
                              else streamCopyFile w src dst) of
                          Some msg \<Rightarrow> Inl msg
                        | None \<Rightarrow>
                            (case (if preservePermissions opts then chmod w dst (st_mode stats)
                                   else None) of
                               Some msg \<Rightarrow> Inl msg
                             | None \<Rightarrow> Inr (done Success (st_size stats) isTemplate)))))"

text \<open>\<open>processFile\<close>: the \<open>catch\<close> turns an exception into a result of status \<open>error\<close>.\<close>

definition processFile ::
  "fs_world \<Rightarrow> string \<Rightarrow> string \<Rightarrow> js_object \<Rightarrow> ProcessingOptions \<Rightarrow> FileProcessingResult" where
  "processFile w src dst vars opts =
     (case processFile_try w src dst vars opts of
        Inr r \<Rightarrow> r
      | Inl msg \<Rightarrow>
          \<lparr>res_sourcePath = src, res_destinationPath = dst, status = Error,
           processingTime = elapsed w src, fileSize = 0, error = Some msg, templated = False\<rparr>)"

text \<open>
  \<open>processJobsConcurrently\<close>: the jobs are processed one after the other, in order. Its own
  \<open>catch\<close> is never entered, since \<open>processFile\<close> returns a result for every job.
\<close>

fun processJobsConcurrently :: "fs_world \<Rightarrow> ProcessingJob list \<Rightarrow> FileProcessingResult list" where
  "processJobsConcurrently w [] = []"
| "processJobsConcurrently w (job # jobs) =
     processFile w (sourcePath job) (destinationPath job) (job_variables job) (job_options job)
       # processJobsConcurrently w jobs"

definition discoverFiles :: "fs_world \<Rightarrow> string \<Rightarrow> ProcessingOptions \<Rightarrow> string + string list" where
  "discoverFiles w sourceDir opts =
     (case fastGlob w sourceDir of
        Inl err \<Rightarrow> Inl err
      | Inr found \<Rightarrow>
          Inr (filter (\<lambda>file. case stat w file of
                                 Inl err \<Rightarrow> False
                               | Inr stats \<Rightarrow> shouldProcessFile file stats opts) found))"

fun jobs_from :: "fs_world \<Rightarrow> nat \<Rightarrow> string list \<Rightarrow> string \<Rightarrow> string \<Rightarrow> js_object \<Rightarrow> ProcessingOptions
    \<Rightarrow> ProcessingJob list" where
  "jobs_from w n [] sourceDir destinationDir vars opts = []"
| "jobs_from w n (file # rest) sourceDir destinationDir vars opts =
     \<lparr>job_id = ''job_'' @ show_nat n, sourcePath = file,
      destinationPath = destination_of w sourceDir destinationDir file,
      job_variables = vars, job_options = opts\<rparr>
       # jobs_from w (Suc n) rest sourceDir destinationDir vars opts"

definition createProcessingJobs ::
  "fs_world \<Rightarrow> string list \<Rightarrow> string \<Rightarrow> string \<Rightarrow> js_object \<Rightarrow> ProcessingOptions \<Rightarrow> ProcessingJob list" where
  "createProcessingJobs w found sourceDir destinationDir vars opts =
     jobs_from w 0 found sourceDir destinationDir vars opts"

text \<open>
  \<open>createBatchResult\<close>; the derived metrics (throughput, mean time, memory) are
  floating-point values and are left out.
\<close>

definition createBatchResult :: "FileProcessingResult list \<Rightarrow> rat \<Rightarrow> BatchProcessingResult" where
  "createBatchResult rs time =
     \<lparr>totalFiles = length rs,
      successCount = length (filter (\<lambda>r. status r = Success) rs),
      skippedCount = length (filter (\<lambda>r. status r = Skipped) rs),
      errorCount = length (filter (\<lambda>r. status r = Error) rs),
      totalTime = time,
      results = rs\<rparr>"

text \<open>
  \<open>processBatch\<close>, with the options already merged with the defaults; \<open>Inl\<close> is the error
  that the function throws again when the discovery fails.
\<close>

definition processBatch ::
  "fs_world \<Rightarrow> rat \<Rightarrow> string \<Rightarrow> string \<Rightarrow> js_object \<Rightarrow> ProcessingOptions
     \<Rightarrow> string + BatchProcessingResult" where
  "processBatch w time sourceDir destinationDir vars opts =
     (case discoverFiles w sourceDir opts of
        Inl err \<Rightarrow> Inl err
      | Inr found \<Rightarrow>
          (let jobs = createProcessingJobs w found sourceDir destinationDir vars opts;
               rs = processJobsConcurrently w jobs
           in Inr (createBatchResult rs time)))"

section \<open>The stages of a generation run (\<open>TemplateEngine.generateFromTemplate\<close>)\<close>






text \<open>The outcome of the \<open>try\<close> block of \<open>processFile\<close> for a job.\<close>

definition job_outcome :: "fs_world \<Rightarrow> ProcessingJob \<Rightarrow> string + FileProcessingResult" where
  "job_outcome w job =
     processFile_try w (sourcePath job) (destinationPath job) (job_variables job) (job_options job)"

section \<open>Concrete inputs\<close>

subsection \<open>A template file and its compilation\<close>

definition ex_metadata :: TemplateFileMetadata where
  "ex_metadata = \<lparr>path = ''/t/a.eta'', lastModified = 0, size_bytes = 10, variables = [''name''],
                  helpers = [], partials = [], extends = None\<rparr>"

definition ex_result :: TemplateCompilationResult where
  "ex_result = \<lparr>template = 0, compilationTime = 1, dependencies = [], metadata = ex_metadata,
                cacheKey = ''/t/a.eta:''\<rparr>"

definition ex_resolve :: "string \<Rightarrow> string \<Rightarrow> string" where
  "ex_resolve base p = base @ ''/'' @ p"

definition ex_parser_config :: TemplateParserConfig where
  "ex_parser_config = \<lparr>templateRoot = ''/t'', cacheSize = 1000, enableInheritance = True\<rparr>"

definition ex_parse_world :: "int \<Rightarrow> parse_world" where
  "ex_parse_world t =
     \<lparr>pt_lookup = t, pt_evict = t, pt_insert = t,
      readFile = (\<lambda>p. Inr ''Hello <%= name %>''),
      analyzeTemplate = (\<lambda>p content. Inr ex_metadata),
      processInheritance = (\<lambda>content parent. Inr content),
      eta_compile = (\<lambda>content filename. Inr (7, 3))\<rparr>"

definition ex_parser_state :: parser_state where
  "ex_parser_state =
     \<lparr>cache = [],
      metrics = \<lparr>cacheHits = 0, cacheMisses = 0, totalCompilations = 0,
                 averageCompilationTime = 0, totalProcessingTime = 0\<rparr>\<rparr>"

definition ex_parse_options :: parse_options where
  "ex_parse_options = \<lparr>skipCache = None, parse_variables = Some [(''name'', JStr ''Ann'')]\<rparr>"

definition ex_compiled :: TemplateCompilationResult where
  "ex_compiled = \<lparr>template = 7, compilationTime = 3, dependencies = [], metadata = ex_metadata,
                  cacheKey = generateCacheKey ''/t/a.eta'' (Some [(''name'', JStr ''Ann'')])\<rparr>"

definition ex_after_first :: parser_state where
  "ex_after_first =
     \<lparr>cache = [(generateCacheKey ''/t/a.eta'' (Some [(''name'', JStr ''Ann'')]),
                \<lparr>result = ex_compiled, lastAccessed = 1000, accessCount = 1, ttl = 301000\<rparr>)],
      metrics = \<lparr>cacheHits = 0, cacheMisses = 1, totalCompilations = 1,
                 averageCompilationTime = 3, totalProcessingTime = 3\<rparr>\<rparr>"

subsection \<open>A variable context and a configuration of the engine\<close>

definition ex_context :: VariableContext where
  "ex_context = \<lparr>env = [], user = [(''projectName'', JStr ''demo'')], system = [], computed = [],
                 secrets = []\<rparr>"

definition ex_var_config :: VariableConfig where
  "ex_var_config = \<lparr>environments = [], defaults = [], transformers = [], schemas = [],
                    enableCaching = True, cacheTtl = 300000\<rparr>"

subsection \<open>A source tree of three files, one of which cannot be read\<close>

definition ex_processing_options :: ProcessingOptions where
  "ex_processing_options =
     \<lparr>skipBinary = True, preservePermissions = True, incremental = False, filters = [],
      templateExtensions = [''.eta''], maxFileSize = 104857600, enableCompression = False\<rparr>"

definition ex_fs_world :: fs_world where
  "ex_fs_world =
     \<lparr>mkdir_parent = (\<lambda>dst. None),
      stat = (\<lambda>p. Inr \<lparr>st_size = 10, st_mode = 420\<rparr>),
      getMimeType = (\<lambda>p. Some ''text/plain''),
      read_head = (\<lambda>p. Inr [72, 105]),
      copyFile = (\<lambda>src dst. None),
      streamCopyFile = (\<lambda>src dst. if src = ''/src/b.dat'' then Some ''EACCES: permission denied''
                                     else None),
      processTemplateFile = (\<lambda>src dst vars. None),
      chmod = (\<lambda>dst mode. None),
      extname_lower = (\<lambda>p. if p = ''/src/a.eta'' then ''.eta'' else ''.dat''),
      elapsed = (\<lambda>p. 1),
      fastGlob = (\<lambda>dir. Inr [''/src/a.eta'', ''/src/b.dat'', ''/src/c.dat'']),
      destination_of = (\<lambda>sourceDir destinationDir file. destinationDir @ drop (length sourceDir) file)\<rparr>"

definition ex_jobs :: "ProcessingJob list" where
  "ex_jobs = createProcessingJobs ex_fs_world [''/src/a.eta'', ''/src/b.dat'', ''/src/c.dat'']
               ''/src'' ''/out'' [] ex_processing_options"

subsection \<open>Descriptors\<close>





subsection \<open>Descriptors of the template \<open>x\<close>\<close>

definition ex_x :: "string \<Rightarrow> TemplateMetadata" where
  "ex_x v =
     \<lparr>name = Some ''x'', version = Some v, description = Some ''demo'', author = Some ''dev'',
      license = Some ''MIT'', template_dependencies = None, template_variables = None,
      files = None, securityStatus = Some \<lparr>scan_status = ''passed'', scan_score = 100\<rparr>\<rparr>"

definition ex_other :: TemplateMetadata where
  "ex_other = (ex_x ''3.0.0'')\<lparr>name := Some ''y''\<rparr>"

subsection \<open>Strings cut into literal text and placeholders\<close>







subsection \<open>An engine with a required variable\<close>

definition ex_lib :: js_lib where
  "ex_lib = \<lparr>ajv_validate = (\<lambda>schema_name v. Inr []), sha256 = (\<lambda>data. ''sha256 of '' @ data),
             StringToNumber = (\<lambda>s. None)\<rparr>"

definition ex_schema :: "json option \<Rightarrow> TemplateVariableSchema" where
  "ex_schema d =
     \<lparr>var_name = Some ''v'', var_type = Some ''string'', var_description = None, var_default = d,
      var_required = True, var_pattern = None, var_enum = None, var_minimum = None,
      var_maximum = None\<rparr>"

definition ex_required_config :: VariableConfig where
  "ex_required_config =
     \<lparr>environments = [], defaults = [], transformers = [],
      schemas = [(''projectName'', ex_schema None), (''license'', ex_schema (Some (JStr ''MIT'')))],
      enableCaching = True, cacheTtl = 300000\<rparr>"

definition ex_resolve_world :: "int \<Rightarrow> resolve_world" where
  "ex_resolve_world t =
     \<lparr>t_lookup = t, t_cache = t, process_env = [(''HOME'', ''/root'')],
      loadSystemVariables = Inl ''require is not defined'',
      clock_and_process = [(''year'', JNum 2026)]\<rparr>"

definition ex_options :: VariableResolutionOptions where
  "ex_options = \<lparr>environment = None, includeSystem = Some False, includeEnv = None,
                 overrides = None, skipValidation = None, enableInterpolation = None\<rparr>"

definition ex_first_cache :: context_cache where
  "ex_first_cache =
     snd (resolveVariables ex_lib ex_required_config (ex_resolve_world 0) []
            [(''projectName'', JStr ''demo'')] ex_options)"

section \<open>Properties\<close>

subsection \<open>Expiry of cache entries\<close>

lemma getCachedTemplate_hit:
  assumes "map_of c key = Some e" and "now \<le> ttl e"
  shows "getCachedTemplate now key c =
           (Some (e\<lparr>lastAccessed := now, accessCount := accessCount e + 1\<rparr>),
            AList.update key (e\<lparr>lastAccessed := now, accessCount := accessCount e + 1\<rparr>) c)"
  using assms by (simp add: getCachedTemplate_def Let_def)

lemma getCachedTemplate_expired:
  assumes "map_of c key = Some e" and "ttl e < now"
  shows "getCachedTemplate now key c = (None, AList.delete key c)"
  using assms by (simp add: getCachedTemplate_def)

lemma getCachedContext_hit_iff:
  "fst (getCachedContext now key c) \<noteq> None \<longleftrightarrow> (\<exists>e. map_of c key = Some e \<and> now \<le> entry_ttl e)"
  by (auto simp: getCachedContext_def split: option.splits)

lemma getCachedTemplate_hit_iff:
  "fst (getCachedTemplate now key c) \<noteq> None \<longleftrightarrow> (\<exists>e. map_of c key = Some e \<and> now \<le> ttl e)"
  by (auto simp: getCachedTemplate_def Let_def split: option.splits)

text \<open>
  C2. An entry inserted at time 1000 with a time to live of 300000 ms expires at 301000.
  A read at exactly 301000 is a hit in both caches: the test of the code is
  \<open>now > entry.ttl\<close>, so the entry is still served at the instant of its expiry, where the
  specification asks for a miss. So it is for the calls that read the caches: a
  \<open>parseTemplate\<close> at 301000 of the template compiled at 1000 counts a hit, and a
  \<open>resolveVariables\<close> at 300000 of the variables resolved at 0 leaves the entry of time 0
  in place instead of resolving again.
\<close>

theorem ttl_boundary_read_is_hit:
  "fst (getCachedTemplate 301000 ''/t/a.eta:''
          (cacheTemplate 1000 1000 1000 ''/t/a.eta:'' ex_result []))
     = Some \<lparr>result = ex_result, lastAccessed = 301000, accessCount = 2, ttl = 301000\<rparr>
   \<and> fst (getCachedContext 301000 ''key''
          (cacheContext ex_var_config 1000 ''key'' ex_context []))
     = Some \<lparr>cached_context = ex_context, cachedAt = 1000, entry_ttl = 301000, hash = ''key''\<rparr>
   \<and> cacheHits (metrics (snd (parseTemplate ex_resolve ex_parser_config (ex_parse_world 301000)
                                ex_after_first ''a.eta'' ex_parse_options))) = 1
   \<and> map (cachedAt \<circ> snd)
         (snd (resolveVariables ex_lib ex_required_config (ex_resolve_world 300000) ex_first_cache
                 [(''projectName'', JStr ''demo'')] ex_options)) = [0]"
  by code_simp

subsection \<open>Eviction\<close>

text \<open>
  C3. With a capacity of one entry, a second key inserted in the millisecond in which the
  first entry was last accessed evicts nothing: \<open>evictLeastRecentlyUsed\<close> looks for an entry
  whose \<open>lastAccessed\<close> is strictly below the current time, finds none, and the cache holds
  two entries. So it is after \<open>cacheTemplate\<close> twice, and after \<open>parseTemplate\<close> of two
  templates whose compilations end in the same millisecond.
\<close>

theorem eviction_skipped_within_one_millisecond:
  "map fst (cacheTemplate 1 1000 1000 ''/t/b.eta:'' ex_result
              (cacheTemplate 1 1000 1000 ''/t/a.eta:'' ex_result []))
     = [''/t/a.eta:'', ''/t/b.eta:'']
   \<and> length (cache (snd (parseTemplate ex_resolve (ex_parser_config\<lparr>cacheSize := 1\<rparr>)
                 (ex_parse_world 1000)
                 (snd (parseTemplate ex_resolve (ex_parser_config\<lparr>cacheSize := 1\<rparr>)
                         (ex_parse_world 1000) ex_parser_state ''a.eta'' ex_parse_options))
                 ''b.eta'' ex_parse_options))) = 2"
  by code_simp

text \<open>
  What the eviction does when the clock has advanced: if the keys are distinct and not
  empty and some entry was last accessed strictly before the reading of the clock, one
  entry is removed, and no entry of the cache was accessed less recently than it. A hit
  of \<open>getCachedTemplate\<close> stamps the entry with the time of the read.
\<close>

lemma oldest_scan_result:
  "oldest_scan c (k0, t0) = (k, t) \<Longrightarrow>
     (\<forall>(k', e') \<in> set c. t \<le> lastAccessed e') \<and>
     ((k = k0 \<and> t = t0) \<or> (\<exists>e. (k, e) \<in> set c \<and> lastAccessed e = t \<and> t < t0))"
proof (induction c arbitrary: k0 t0)
  case Nil
  then show ?case by simp
next
  case (Cons x xs)
  obtain k1 e1 where x: "x = (k1, e1)" by (cases x)
  show ?case
  proof (cases "lastAccessed e1 < t0")
    case True
    with Cons.prems have "oldest_scan xs (k1, lastAccessed e1) = (k, t)"
      by (simp add: x)
    from Cons.IH [OF this] True show ?thesis
      by (auto simp: x)
  next
    case False
    with Cons.prems have "oldest_scan xs (k0, t0) = (k, t)"
      by (simp add: x)
    from Cons.IH [OF this] False show ?thesis
      by (auto simp: x)
  qed
qed

lemma length_delete_present:
  "distinct (map fst c) \<Longrightarrow> (k, e) \<in> set c \<Longrightarrow> length (AList.delete k c) = length c - 1"
proof (induction c)
  case Nil
  then show ?case by simp
next
  case (Cons x xs)
  obtain k1 e1 where x: "x = (k1, e1)" by (cases x)
  show ?case
  proof (cases "k1 = k")
    case True
    with Cons.prems have "k \<notin> fst ` set xs" by (simp add: x)
    then have "AList.delete k xs = xs"
      by (simp add: delete_id)
    with True show ?thesis by (simp add: x)
  next
    case False
    with Cons.prems have in_xs: "(k, e) \<in> set xs" and d: "distinct (map fst xs)"
      by (auto simp: x)
    then have "xs \<noteq> []" by auto
    with Cons.IH [OF d in_xs] False show ?thesis
      by (simp add: x)
  qed
qed

lemma evict_removes_oldest:
  assumes d: "distinct (map fst c)" and ne: "[] \<notin> fst ` set c"
    and old: "\<exists>(k, e) \<in> set c. lastAccessed e < now"
  shows "\<exists>k e. (k, e) \<in> set c \<and> (\<forall>(k', e') \<in> set c. lastAccessed e \<le> lastAccessed e')
           \<and> evictLeastRecentlyUsed now c = AList.delete k c
           \<and> length (evictLeastRecentlyUsed now c) = length c - 1"
proof -
  obtain k t where scan: "oldest_scan c ([], now) = (k, t)"
    by (cases "oldest_scan c ([], now)")
  from oldest_scan_result [OF scan] have low: "\<forall>(k', e') \<in> set c. t \<le> lastAccessed e'"
    and alt: "(k = [] \<and> t = now) \<or> (\<exists>e. (k, e) \<in> set c \<and> lastAccessed e = t \<and> t < now)"
    by blast+
  from old low have "t < now" by fastforce
  with alt obtain e where e: "(k, e) \<in> set c" "lastAccessed e = t"
    by auto
  with ne have "k \<noteq> []" by force
  then have ev: "evictLeastRecentlyUsed now c = AList.delete k c"
    by (simp add: evictLeastRecentlyUsed_def scan)
  from low e have "\<forall>(k', e') \<in> set c. lastAccessed e \<le> lastAccessed e'"
    by simp
  with e(1) ev length_delete_present [OF d e(1)] show ?thesis
    by auto
qed

lemma getCachedTemplate_refreshes:
  assumes "map_of c key = Some e" and "now \<le> ttl e"
  shows "map_option lastAccessed (map_of (snd (getCachedTemplate now key c)) key) = Some now"
  using assms by (simp add: getCachedTemplate_def Let_def update_conv')

subsection \<open>The key of the compile cache\<close>

text \<open>
  C5. Two bindings that differ in a value nested in an object have the same key: the
  array passed to \<open>JSON.stringify\<close> lists the top-level names only, and it filters the
  properties of the nested objects as well.
\<close>

theorem nested_values_share_cache_key:
  "generateCacheKey ''/t/a.eta'' (Some [(''user'', JObj [(''name'', JStr ''Ann'')])])
     = ''/t/a.eta:{'' @ [CHR 0x22] @ ''user'' @ [CHR 0x22] @ '':{}}''
   \<and> generateCacheKey ''/t/a.eta'' (Some [(''user'', JObj [(''name'', JStr ''Bob'')])])
     = ''/t/a.eta:{'' @ [CHR 0x22] @ ''user'' @ [CHR 0x22] @ '':{}}''"
  by (simp add: generateCacheKey_def quote_def quote_char_def List.map_filter_def)

text \<open>
  The key does not depend on the order in which the top-level variables are listed.
\<close>

lemma stringify_fields:
  "map_of (map (\<lambda>(k, v). (k, f v)) kvs) P = map_option f (map_of kvs P)"
  by (induction kvs) auto

lemma generateCacheKey_order_independent:
  assumes "distinct (map fst vs)" and "distinct (map fst vs')" and "set vs = set vs'"
  shows "generateCacheKey p (Some vs) = generateCacheKey p (Some vs')"
proof -
  have m: "map_of vs = map_of vs'"
    using assms by (simp add: map_of_inject_set)
  have "set (map fst vs) = set (map fst vs')"
    using assms(3) by simp
  then have k: "sort (map fst vs) = sort (map fst vs')"
    using assms(1,2)
    by (intro sorted_distinct_set_unique) simp_all
  show ?thesis
    by (simp add: generateCacheKey_def stringify_fields m k)
qed

subsection \<open>Round trip through the compile cache\<close>

lemma getCachedTemplate_Some:
  assumes "getCachedTemplate now key c = (Some e', c')"
  shows "map_of c' key = Some e' \<and> (\<exists>e. map_of c key = Some e \<and> result e' = result e \<and> ttl e' = ttl e)"
  using assms
  by (auto simp: getCachedTemplate_def Let_def update_conv' split: option.splits if_splits)

lemma map_of_cacheTemplate:
  "map_of (cacheTemplate n t1 t2 key res c) key =
     Some \<lparr>result = res, lastAccessed = t2, accessCount = 1, ttl = t2 + 5 * 60 * 1000\<rparr>"
  by (simp add: cacheTemplate_def Let_def update_conv')

lemma parseTemplate_caches_result:
  assumes "parseTemplate resolve config w s templatePath opts = (Inr r, s1)"
  shows "\<exists>e. map_of (cache s1)
               (generateCacheKey (resolve (templateRoot config) templatePath) (parse_variables opts))
             = Some e \<and> result e = r"
proof -
  let ?key = "generateCacheKey (resolve (templateRoot config) templatePath) (parse_variables opts)"
  let ?looked = "if skipCache opts \<noteq> Some True then getCachedTemplate (pt_lookup w) ?key (cache s)
                 else (None, cache s)"
  show ?thesis
  proof (cases "fst ?looked")
    case (Some cached)
    then have g: "getCachedTemplate (pt_lookup w) ?key (cache s) = (Some cached, snd ?looked)"
      by (auto split: if_splits simp: prod_eq_iff)
    from assms Some have "r = result cached" and "cache s1 = snd ?looked"
      by (auto simp: parseTemplate_def Let_def)
    with getCachedTemplate_Some [OF g] show ?thesis by auto
  next
    case None
    with assms show ?thesis
      by (auto simp: parseTemplate_def Let_def map_of_cacheTemplate
          split: sum.splits option.splits prod.splits if_splits)
  qed
qed

text \<open>
  C4. When a call of \<open>parseTemplate\<close> without \<open>skipCache\<close> returns a result, the cache holds
  an entry with that result under the key of the call; and a second call with the same
  path and variables, on the state that the first call left and at a time that is not
  after the expiry of the entry, returns the same result, adds one to the hit counter and
  one to the access count of the entry, and changes nothing else.
\<close>

theorem parseTemplate_cache_roundtrip:
  assumes first: "parseTemplate resolve config w1 s templatePath opts = (Inr r, s1)"
    and noskip: "skipCache opts \<noteq> Some True"
  shows "\<exists>e. map_of (cache s1)
               (generateCacheKey (resolve (templateRoot config) templatePath) (parse_variables opts))
             = Some e \<and> result e = r \<and>
             (pt_lookup w2 \<le> ttl e \<longrightarrow>
                parseTemplate resolve config w2 s1 templatePath opts =
                  (Inr r,
                   s1\<lparr>cache := AList.update
                          (generateCacheKey (resolve (templateRoot config) templatePath)
                             (parse_variables opts))
                          (e\<lparr>lastAccessed := pt_lookup w2, accessCount := accessCount e + 1\<rparr>)
                          (cache s1),
                      metrics := (metrics s1)\<lparr>cacheHits := cacheHits (metrics s1) + 1\<rparr>\<rparr>))"
proof -
  from parseTemplate_caches_result [OF first] obtain e where
    e: "map_of (cache s1)
          (generateCacheKey (resolve (templateRoot config) templatePath) (parse_variables opts))
        = Some e" "result e = r"
    by blast
  have "parseTemplate resolve config w2 s1 templatePath opts =
          (Inr r,
           s1\<lparr>cache := AList.update
                  (generateCacheKey (resolve (templateRoot config) templatePath)
                     (parse_variables opts))
                  (e\<lparr>lastAccessed := pt_lookup w2, accessCount := accessCount e + 1\<rparr>)
                  (cache s1),
              metrics := (metrics s1)\<lparr>cacheHits := cacheHits (metrics s1) + 1\<rparr>\<rparr>)"
    if "pt_lookup w2 \<le> ttl e"
    using getCachedTemplate_hit [OF e(1) that] noskip e(2)
    by (simp add: parseTemplate_def Let_def)
  with e show ?thesis by blast
qed

theorem parseTemplate_cache_roundtrip_witness:
  "parseTemplate ex_resolve ex_parser_config (ex_parse_world 1000) ex_parser_state ''a.eta''
     ex_parse_options = (Inr ex_compiled, ex_after_first)
   \<and> skipCache ex_parse_options \<noteq> Some True
   \<and> fst (parseTemplate ex_resolve ex_parser_config (ex_parse_world 2000) ex_after_first ''a.eta''
        ex_parse_options) = Inr ex_compiled
   \<and> cacheHits (metrics (snd (parseTemplate ex_resolve ex_parser_config (ex_parse_world 2000)
        ex_after_first ''a.eta'' ex_parse_options))) = 1
   \<and> map (accessCount \<circ> snd) (cache (snd (parseTemplate ex_resolve ex_parser_config
        (ex_parse_world 2000) ex_after_first ''a.eta'' ex_parse_options))) = [2]"
proof -
  have first: "parseTemplate ex_resolve ex_parser_config (ex_parse_world 1000) ex_parser_state
      ''a.eta'' ex_parse_options = (Inr ex_compiled, ex_after_first)"
    by (simp add: parseTemplate_def Let_def ex_resolve_def ex_parser_config_def ex_parse_world_def
        ex_parser_state_def ex_parse_options_def ex_compiled_def ex_after_first_def
        getCachedTemplate_def cacheTemplate_def updatePerformanceMetrics_def ex_metadata_def)
  have noskip: "skipCache ex_parse_options \<noteq> Some True"
    by (simp add: ex_parse_options_def)
  from parseTemplate_cache_roundtrip [OF first noskip, of "ex_parse_world 2000"]
  obtain e where e: "map_of (cache ex_after_first)
        (generateCacheKey (ex_resolve (templateRoot ex_parser_config) ''a.eta'')
           (parse_variables ex_parse_options)) = Some e"
    and second: "pt_lookup (ex_parse_world 2000) \<le> ttl e \<longrightarrow>
       parseTemplate ex_resolve ex_parser_config (ex_parse_world 2000) ex_after_first ''a.eta''
         ex_parse_options =
       (Inr ex_compiled,
        ex_after_first\<lparr>cache := AList.update
              (generateCacheKey (ex_resolve (templateRoot ex_parser_config) ''a.eta'')
                 (parse_variables ex_parse_options))
              (e\<lparr>lastAccessed := pt_lookup (ex_parse_world 2000), accessCount := accessCount e + 1\<rparr>)
              (cache ex_after_first),
           metrics := (metrics ex_after_first)\<lparr>cacheHits := cacheHits (metrics ex_after_first) + 1\<rparr>\<rparr>)"
    by blast
  from e have e_eq: "e = \<lparr>result = ex_compiled, lastAccessed = 1000, accessCount = 1, ttl = 301000\<rparr>"
    by (simp add: ex_after_first_def ex_resolve_def ex_parser_config_def ex_parse_options_def)
  from second e_eq show ?thesis
    using first noskip
    by (simp add: ex_parse_world_def ex_after_first_def ex_resolve_def ex_parser_config_def
        ex_parse_options_def)
qed

subsection \<open>Isolation of a failing file in a batch\<close>

lemma processFile_try_status:
  "processFile_try w src dst vars opts = Inr r \<Longrightarrow> status r = Success \<or> status r = Skipped"
  by (auto simp: processFile_try_def Let_def split: option.splits sum.splits if_splits)

lemma processJobsConcurrently_map:
  "processJobsConcurrently w jobs =
     map (\<lambda>job. processFile w (sourcePath job) (destinationPath job) (job_variables job)
                   (job_options job)) jobs"
  by (induction jobs) simp_all

lemma length_jobs_from:
  "length (jobs_from w n found sourceDir destinationDir vars opts) = length found"
  by (induction found arbitrary: n) simp_all

lemma job_result_error:
  "job_outcome w job = Inl msg \<Longrightarrow>
     status (processFile w (sourcePath job) (destinationPath job) (job_variables job) (job_options job)) = Error
     \<and> error (processFile w (sourcePath job) (destinationPath job) (job_variables job) (job_options job)) = Some msg"
  by (simp add: job_outcome_def processFile_def)

lemma job_result_ok:
  "job_outcome w job = Inr r \<Longrightarrow>
     processFile w (sourcePath job) (destinationPath job) (job_variables job) (job_options job) = r
     \<and> (status r = Success \<or> status r = Skipped)"
  using processFile_try_status [of w "sourcePath job" "destinationPath job" "job_variables job" "job_options job" r]
  by (simp add: job_outcome_def processFile_def)

lemma count_single:
  assumes "k < length xs" and "P (xs ! k)" and "\<forall>i<length xs. i \<noteq> k \<longrightarrow> \<not> P (xs ! i)"
  shows "length (filter P xs) = 1"
proof -
  have xs: "xs = take k xs @ xs ! k # drop (Suc k) xs"
    using assms(1) by (rule id_take_nth_drop)
  have a: "filter P (take k xs) = []"
    unfolding filter_empty_conv
  proof
    fix x assume "x \<in> set (take k xs)"
    then obtain i where "i < length (take k xs)" "x = take k xs ! i"
      by (auto simp: in_set_conv_nth)
    then have "i < k" "i < length xs" "x = xs ! i" using assms(1) by simp_all
    with assms(3) show "\<not> P x" by simp
  qed
  have b: "filter P (drop (Suc k) xs) = []"
    unfolding filter_empty_conv
  proof
    fix x assume "x \<in> set (drop (Suc k) xs)"
    then obtain i where "i < length (drop (Suc k) xs)" "x = drop (Suc k) xs ! i"
      by (auto simp: in_set_conv_nth)
    then have "Suc k + i < length xs" "x = xs ! (Suc k + i)" using assms(1) by simp_all
    with assms(3) show "\<not> P x" by simp
  qed
  have "filter P xs = filter P (take k xs @ xs ! k # drop (Suc k) xs)"
    using xs by simp
  then show ?thesis using a b assms(2) by simp
qed

lemma count_none:
  assumes "k < length xs" and "\<not> P (xs ! k)" and "\<forall>i<length xs. i \<noteq> k \<longrightarrow> P (xs ! i)"
  shows "length (filter P xs) = length xs - 1"
proof -
  have "length (filter P xs) + length (filter (\<lambda>x. \<not> P x) xs) = length xs"
    by (rule sum_length_filter_compl)
  moreover have "length (filter (\<lambda>x. \<not> P x) xs) = 1"
    using assms by (intro count_single [of k]) auto
  ultimately show ?thesis by simp
qed

text \<open>
  C6. When the \<open>try\<close> block of \<open>processFile\<close> throws for exactly one job of a batch and
  returns for every other job, \<open>processBatch\<close> returns a result that covers all the jobs:
  one result of status \<open>error\<close> that carries the message of the exception, at the position
  of the failing job, and for every other job the result that its own \<open>try\<close> block
  returned, of status \<open>success\<close> or \<open>skipped\<close>. The outcomes of the file-system and parser
  calls are given per path, so one job does not change what another one reads.
\<close>

theorem processBatch_isolates_one_failure:
  assumes disc: "discoverFiles w sourceDir opts = Inr found"
    and jobs: "jobs = createProcessingJobs w found sourceDir destinationDir vars opts"
    and k: "k < length jobs"
    and fail: "job_outcome w (jobs ! k) = Inl msg"
    and others: "\<forall>i<length jobs. i \<noteq> k \<longrightarrow> \<not> isl (job_outcome w (jobs ! i))"
  shows "\<exists>b. processBatch w time sourceDir destinationDir vars opts = Inr b
           \<and> totalFiles b = length jobs \<and> length (results b) = length jobs
           \<and> errorCount b = 1
           \<and> successCount b + skippedCount b = length jobs - 1
           \<and> status (results b ! k) = Error \<and> error (results b ! k) = Some msg
           \<and> (\<forall>i<length jobs. i \<noteq> k \<longrightarrow> job_outcome w (jobs ! i) = Inr (results b ! i))"
proof -
  let ?pf = "\<lambda>job. processFile w (sourcePath job) (destinationPath job) (job_variables job) (job_options job)"
  let ?rs = "map ?pf jobs"
  let ?b = "createBatchResult ?rs time"
  have run: "processBatch w time sourceDir destinationDir vars opts = Inr ?b"
    using disc jobs by (simp add: processBatch_def Let_def processJobsConcurrently_map)
  have ok: "job_outcome w (jobs ! i) = Inr (?rs ! i) \<and> (status (?rs ! i) = Success \<or> status (?rs ! i) = Skipped)"
    if "i < length jobs" "i \<noteq> k" for i
  proof -
    from others that obtain r where r: "job_outcome w (jobs ! i) = Inr r"
      by (cases "job_outcome w (jobs ! i)") auto
    from job_result_ok [OF r] that(1) show ?thesis by (simp add: r)
  qed
  have bad: "status (?rs ! k) = Error" "error (?rs ! k) = Some msg"
    using job_result_error [OF fail] k by simp_all
  have len: "length ?rs = length jobs" by simp
  have err: "length (filter (\<lambda>r. status r = Error) ?rs) = 1"
  proof (rule count_single [of k])
    show "k < length ?rs" using k by simp
    show "status (?rs ! k) = Error" by (rule bad)
    show "\<forall>i<length ?rs. i \<noteq> k \<longrightarrow> status (?rs ! i) \<noteq> Error"
    proof (intro allI impI)
      fix i assume "i < length ?rs" "i \<noteq> k"
      then have "status (?rs ! i) = Success \<or> status (?rs ! i) = Skipped"
        using ok [of i] by simp
      then show "status (?rs ! i) \<noteq> Error" by auto
    qed
  qed
  have "length (filter (\<lambda>r. status r = Success) ?rs) + length (filter (\<lambda>r. status r = Skipped) ?rs)
          + length (filter (\<lambda>r. status r = Error) ?rs) = length ?rs"
  proof (induction jobs)
    case Nil
    then show ?case by simp
  next
    case (Cons j js)
    then show ?case by (cases "status (?pf j)") simp_all
  qed
  with err have cnt: "length (filter (\<lambda>r. status r = Success) ?rs)
      + length (filter (\<lambda>r. status r = Skipped) ?rs) = length jobs - 1"
    by simp
  have "totalFiles ?b = length jobs" "length (results ?b) = length jobs" "errorCount ?b = 1"
    "successCount ?b + skippedCount ?b = length jobs - 1"
    "status (results ?b ! k) = Error" "error (results ?b ! k) = Some msg"
    using err cnt bad by (simp_all add: createBatchResult_def)
  moreover have "\<forall>i<length jobs. i \<noteq> k \<longrightarrow> job_outcome w (jobs ! i) = Inr (results ?b ! i)"
    using ok by (simp add: createBatchResult_def)
  ultimately show ?thesis using run by blast
qed

lemma ex_jobs_eq:
  "ex_jobs =
     [\<lparr>job_id = ''job_0'', sourcePath = ''/src/a.eta'', destinationPath = ''/out/a.eta'',
       job_variables = [], job_options = ex_processing_options\<rparr>,
      \<lparr>job_id = ''job_1'', sourcePath = ''/src/b.dat'', destinationPath = ''/out/b.dat'',
       job_variables = [], job_options = ex_processing_options\<rparr>,
      \<lparr>job_id = ''job_2'', sourcePath = ''/src/c.dat'', destinationPath = ''/out/c.dat'',
       job_variables = [], job_options = ex_processing_options\<rparr>]"
  by (simp add: ex_jobs_def createProcessingJobs_def ex_fs_world_def show_nat.simps digit_char_def
      numeral_2_eq_2)

lemma ex_outcomes:
  "job_outcome ex_fs_world (ex_jobs ! 0) =
     Inr \<lparr>res_sourcePath = ''/src/a.eta'', res_destinationPath = ''/out/a.eta'', status = Success,
          processingTime = 1, fileSize = 10, error = None, templated = True\<rparr>"
  "job_outcome ex_fs_world (ex_jobs ! 1) = Inl ''EACCES: permission denied''"
  "job_outcome ex_fs_world (ex_jobs ! 2) =
     Inr \<lparr>res_sourcePath = ''/src/c.dat'', res_destinationPath = ''/out/c.dat'', status = Success,
          processingTime = 1, fileSize = 10, error = None, templated = False\<rparr>"
  by (simp_all add: ex_jobs_eq job_outcome_def processFile_try_def Let_def ex_fs_world_def
      ex_processing_options_def shouldProcessFile_def isBinaryFile_def isTemplateFile_def)

theorem processBatch_isolates_one_failure_witness:
  "discoverFiles ex_fs_world ''/src'' ex_processing_options
     = Inr [''/src/a.eta'', ''/src/b.dat'', ''/src/c.dat'']
   \<and> job_outcome ex_fs_world (ex_jobs ! 1) = Inl ''EACCES: permission denied''
   \<and> \<not> isl (job_outcome ex_fs_world (ex_jobs ! 0))
   \<and> \<not> isl (job_outcome ex_fs_world (ex_jobs ! 2))
   \<and> (case processBatch ex_fs_world 5 ''/src'' ''/out'' [] ex_processing_options of
        Inl err \<Rightarrow> False
      | Inr b \<Rightarrow> totalFiles b = 3 \<and> errorCount b = 1 \<and> successCount b + skippedCount b = 2
                 \<and> status (results b ! 1) = Error
                 \<and> error (results b ! 1) = Some ''EACCES: permission denied'')"
proof -
  have disc: "discoverFiles ex_fs_world ''/src'' ex_processing_options
      = Inr [''/src/a.eta'', ''/src/b.dat'', ''/src/c.dat'']"
    by (simp add: discoverFiles_def ex_fs_world_def shouldProcessFile_def ex_processing_options_def)
  have len: "length ex_jobs = 3" by (simp add: ex_jobs_eq)
  have k: "1 < length ex_jobs" by (simp add: len)
  have others: "\<forall>i<length ex_jobs. i \<noteq> 1 \<longrightarrow> \<not> isl (job_outcome ex_fs_world (ex_jobs ! i))"
  proof (intro allI impI)
    fix i assume "i < length ex_jobs" "i \<noteq> 1"
    then have "i = 0 \<or> i = 2" using len by auto
    then show "\<not> isl (job_outcome ex_fs_world (ex_jobs ! i))"
      using ex_outcomes(1,3) by auto
  qed
  from processBatch_isolates_one_failure [OF disc ex_jobs_def k ex_outcomes(2) others, of 5]
  obtain b where "processBatch ex_fs_world 5 ''/src'' ''/out'' [] ex_processing_options = Inr b"
    "totalFiles b = length ex_jobs" "errorCount b = 1"
    "successCount b + skippedCount b = length ex_jobs - 1"
    "status (results b ! 1) = Error" "error (results b ! 1) = Some ''EACCES: permission denied''"
    by blast
  then show ?thesis using disc ex_outcomes len by simp
qed

text \<open>\<open>processBatch\<close> throws only when the discovery of the files throws.\<close>

lemma processBatch_throws_iff:
  "isl (processBatch w time sourceDir destinationDir vars opts) \<longleftrightarrow> isl (discoverFiles w sourceDir opts)"
  by (cases "discoverFiles w sourceDir opts") (simp_all add: processBatch_def Let_def)

subsection \<open>Validation of a descriptor\<close>





subsection \<open>Version resolution\<close>

lemma parse_versions:
  "parse_version ''1.0.0'' = Some (1, 0, 0)"
  "parse_version ''1.2.0'' = Some (1, 2, 0)"
  "parse_version ''2.0.0'' = Some (2, 0, 0)"
  "parse_version ''9.9.9'' = Some (9, 9, 9)"
  "parse_version ''^1.0.0'' = None"
  by (simp_all add: parse_version_def parse_number_def is_digit_def digits_value_def)

lemma rcompare_versions:
  "semver_rcompare ''1.0.0'' ''1.0.0'' = Inr 0"
  "semver_rcompare ''1.0.0'' ''1.2.0'' = Inr 1"
  "semver_rcompare ''1.0.0'' ''2.0.0'' = Inr 1"
  "semver_rcompare ''1.2.0'' ''1.0.0'' = Inr (- 1)"
  "semver_rcompare ''1.2.0'' ''2.0.0'' = Inr 1"
  "semver_rcompare ''2.0.0'' ''1.0.0'' = Inr (- 1)"
  "semver_rcompare ''2.0.0'' ''1.2.0'' = Inr (- 1)"
  by (simp_all add: semver_rcompare_def parse_versions semver_compare_def version_less_def)

lemma satisfies_versions:
  "semver_satisfies ''1.0.0'' ''^1.0.0''"
  "semver_satisfies ''1.2.0'' ''^1.0.0''"
  "\<not> semver_satisfies ''2.0.0'' ''^1.0.0''"
  "\<not> semver_satisfies ''1.0.0'' ''9.9.9''"
  "\<not> semver_satisfies ''1.2.0'' ''9.9.9''"
  "\<not> semver_satisfies ''2.0.0'' ''9.9.9''"
  by (simp_all add: semver_satisfies_def parse_versions caret_bound_def version_less_def)

text \<open>
  C1, as stated, fails: with the descriptors discovered in the order 1.0.0, 1.2.0, 2.0.0,
  \<open>getTemplate("x", "^1.0.0")\<close> returns the 1.0.0 descriptor, the first one that satisfies
  the range, not the 1.2.0 descriptor.
\<close>

theorem range_returns_first_match:
  "getTemplate semver (Inr [ex_x ''1.0.0'', ex_x ''1.2.0'', ex_x ''2.0.0'']) ''x'' (Some ''^1.0.0'')
     = Some (ex_x ''1.0.0'')
   \<and> ex_x ''1.0.0'' \<noteq> ex_x ''1.2.0''"
  by (simp add: getTemplate_def ex_x_def semver_def satisfies_versions)

lemma three_elements:
  assumes "distinct ms" and "set ms = {a, b, c}" and "a \<noteq> b" and "a \<noteq> c" and "b \<noteq> c"
  shows "ms \<in> {[a, b, c], [a, c, b], [b, a, c], [b, c, a], [c, a, b], [c, b, a]}"
proof -
  have "length ms = card {a, b, c}"
    using assms(1,2) distinct_card by fastforce
  then have len: "length ms = 3" using assms(3-5) by simp
  then obtain x y z where ms: "ms = [x, y, z]"
    by (cases ms; cases "tl ms"; cases "tl (tl ms)") auto
  have "x \<in> {a, b, c}" "y \<in> {a, b, c}" "z \<in> {a, b, c}"
    using assms(2) unfolding ms by auto
  then have x: "x = a \<or> x = b \<or> x = c" and y: "y = a \<or> y = b \<or> y = c"
    and z: "z = a \<or> z = b \<or> z = c"
    by simp_all
  have d: "x \<noteq> y" "x \<noteq> z" "y \<noteq> z"
    using assms(1) unfolding ms by simp_all
  from x y z d show ?thesis unfolding ms by auto
qed

lemma find_filter:
  "(\<And>x. P x \<Longrightarrow> Q x) \<Longrightarrow> List.find P (filter Q xs) = List.find P xs"
  by (induction xs) auto

text \<open>
  C1, amended. Let the descriptors named \<open>x\<close> be three, of versions 1.0.0, 1.2.0 and 2.0.0,
  in any order among any descriptors of other names. Then \<open>getTemplate("x")\<close> returns the
  2.0.0 descriptor; \<open>getTemplate("x", "^1.0.0")\<close> returns whichever of the 1.0.0 and 1.2.0
  descriptors comes first in the order of discovery; and \<open>getTemplate("x", "9.9.9")\<close> returns
  \<open>null\<close>.
\<close>

theorem getTemplate_version_resolution:
  assumes a: "name a = Some ''x''" "version a = Some ''1.0.0''"
    and b: "name b = Some ''x''" "version b = Some ''1.2.0''"
    and c: "name c = Some ''x''" "version c = Some ''2.0.0''"
    and d: "distinct (filter (\<lambda>t. name t = Some ''x'') templates)"
    and s: "set (filter (\<lambda>t. name t = Some ''x'') templates) = {a, b, c}"
  shows "getTemplate semver (Inr templates) ''x'' None = Some c
       \<and> getTemplate semver (Inr templates) ''x'' (Some ''^1.0.0'')
           = List.find (\<lambda>t. t = a \<or> t = b) templates
       \<and> getTemplate semver (Inr templates) ''x'' (Some ''^1.0.0'') \<in> {Some a, Some b}
       \<and> getTemplate semver (Inr templates) ''x'' (Some ''9.9.9'') = None"
proof -
  let ?ms = "filter (\<lambda>t. name t = Some ''x'') templates"
  have ne: "a \<noteq> b" "a \<noteq> c" "b \<noteq> c"
    using a(2) b(2) c(2) by auto
  have ms: "?ms \<in> {[a, b, c], [a, c, b], [b, a, c], [b, c, a], [c, a, b], [c, b, a]}"
    using d s ne by (rule three_elements)
  have fnd: "List.find (\<lambda>t. t = a \<or> t = b) templates = List.find (\<lambda>t. t = a \<or> t = b) ?ms"
    by (rule find_filter [symmetric]) (use a(1) b(1) in auto)
  note ev = getTemplate_def Let_def semver_def compare_versions_def
    rcompare_versions satisfies_versions a b c
  have latest: "getTemplate semver (Inr templates) ''x'' None = Some c"
    using ms by (auto simp: ev)
  have range: "getTemplate semver (Inr templates) ''x'' (Some ''^1.0.0'')
      = List.find (\<lambda>t. t = a \<or> t = b) ?ms"
    using ms ne by (auto simp: ev)
  have range_in: "List.find (\<lambda>t. t = a \<or> t = b) ?ms \<in> {Some a, Some b}"
    using ms ne by auto
  have absent: "getTemplate semver (Inr templates) ''x'' (Some ''9.9.9'') = None"
    using ms by (auto simp: ev)
  from latest range range_in absent fnd show ?thesis by simp
qed

theorem getTemplate_version_resolution_witness:
  "getTemplate semver (Inr [ex_x ''1.2.0'', ex_other, ex_x ''2.0.0'', ex_x ''1.0.0'']) ''x'' None
     = Some (ex_x ''2.0.0'')
   \<and> getTemplate semver (Inr [ex_x ''1.2.0'', ex_other, ex_x ''2.0.0'', ex_x ''1.0.0'']) ''x''
       (Some ''^1.0.0'') = Some (ex_x ''1.2.0'')
   \<and> getTemplate semver (Inr [ex_x ''1.2.0'', ex_other, ex_x ''2.0.0'', ex_x ''1.0.0'']) ''x''
       (Some ''9.9.9'') = None"
proof -
  let ?ts = "[ex_x ''1.2.0'', ex_other, ex_x ''2.0.0'', ex_x ''1.0.0'']"
  have f: "filter (\<lambda>t. name t = Some ''x'') ?ts = [ex_x ''1.2.0'', ex_x ''2.0.0'', ex_x ''1.0.0'']"
    by (simp add: ex_x_def ex_other_def)
  have d: "distinct (filter (\<lambda>t. name t = Some ''x'') ?ts)"
    unfolding f by (simp add: ex_x_def)
  have s: "set (filter (\<lambda>t. name t = Some ''x'') ?ts) = {ex_x ''1.0.0'', ex_x ''1.2.0'', ex_x ''2.0.0''}"
    unfolding f by auto
  have n: "name (ex_x ''1.0.0'') = Some ''x''" "name (ex_x ''1.2.0'') = Some ''x''"
    "name (ex_x ''2.0.0'') = Some ''x''"
    by (simp_all add: ex_x_def)
  have v: "version (ex_x ''1.0.0'') = Some ''1.0.0''" "version (ex_x ''1.2.0'') = Some ''1.2.0''"
    "version (ex_x ''2.0.0'') = Some ''2.0.0''"
    by (simp_all add: ex_x_def)
  have first: "List.find (\<lambda>t. t = ex_x ''1.0.0'' \<or> t = ex_x ''1.2.0'') ?ts = Some (ex_x ''1.2.0'')"
    by simp
  from getTemplate_version_resolution [OF n(1) v(1) n(2) v(2) n(3) v(3) d s] first
  show ?thesis by simp
qed

subsection \<open>Interpolation of strings\<close>








subsection \<open>Required variables\<close>










subsection \<open>The context cache when the resolution throws\<close>

text \<open>
  C10, as stated, fails: a first call with \<open>projectName\<close> bound succeeds at time 0 and
  leaves one entry in the cache; a second call with no variables, after the entry has
  expired, has the same key, finds the entry, deletes it as expired and then throws the
  validation failure. The cache after the throw is empty, not the cache before the call.
\<close>

theorem failed_resolution_removes_expired_entry:
  "length ex_first_cache = 1
   \<and> isl (fst (resolveVariables ex_lib ex_required_config (ex_resolve_world 300001) ex_first_cache
                 [] ex_options))
   \<and> snd (resolveVariables ex_lib ex_required_config (ex_resolve_world 300001) ex_first_cache
            [] ex_options) = []
   \<and> snd (resolveVariables ex_lib ex_required_config (ex_resolve_world 300001) ex_first_cache
            [] ex_options) \<noteq> ex_first_cache"
  by code_simp

text \<open>
  C10, amended. When \<open>resolveVariables\<close> throws, it has inserted or updated no entry: the
  cache is the one before the call, or that one without the entry of the key of the
  call when caching is enabled and this entry had expired at the lookup. With caching
  enabled no entry is left under the key, and the same call repeated on the cache that
  the throw left, at any time, returns what the full resolution returns.
\<close>

theorem resolveVariables_throw_inserts_nothing:
  assumes "resolveVariables lib config w ccache uv opts = (Inl err, ccache')"
  shows "(ccache' = ccache
          \<or> (enableCaching config
              \<and> (\<exists>e. map_of ccache (generateContextCacheKey lib uv opts) = Some e
                       \<and> entry_ttl e < t_lookup w)
              \<and> ccache' = AList.delete (generateContextCacheKey lib uv opts) ccache))
       \<and> (enableCaching config \<longrightarrow> map_of ccache' (generateContextCacheKey lib uv opts) = None)
       \<and> fst (resolveVariables lib config w2 ccache' uv opts) = build_context lib config w2 uv opts"
proof -
  let ?key = "generateContextCacheKey lib uv opts"
  have shape: "(ccache' = ccache
          \<or> (enableCaching config
              \<and> (\<exists>e. map_of ccache ?key = Some e \<and> entry_ttl e < t_lookup w)
              \<and> ccache' = AList.delete ?key ccache))
       \<and> (enableCaching config \<longrightarrow> map_of ccache' ?key = None)"
  proof (cases "enableCaching config")
    case False
    with assms show ?thesis
      by (auto simp: resolveVariables_def Let_def split: sum.splits)
  next
    case True
    show ?thesis
    proof (cases "map_of ccache ?key")
      case None
      with assms True show ?thesis
        by (auto simp: resolveVariables_def Let_def getCachedContext_def split: sum.splits)
    next
      case (Some e)
      with assms True show ?thesis
        by (auto simp: resolveVariables_def Let_def getCachedContext_def delete_conv'
            split: sum.splits if_splits)
    qed
  qed
  then have miss: "enableCaching config \<Longrightarrow> getCachedContext (t_lookup w2) ?key ccache' = (None, ccache')"
    by (simp add: getCachedContext_def)
  have "fst (resolveVariables lib config w2 ccache' uv opts) = build_context lib config w2 uv opts"
    by (cases "enableCaching config"; cases "build_context lib config w2 uv opts")
       (simp_all add: resolveVariables_def Let_def miss)
  with shape show ?thesis by blast
qed

theorem resolveVariables_throw_inserts_nothing_witness:
  "isl (fst (resolveVariables ex_lib ex_required_config (ex_resolve_world 300001) ex_first_cache
               [] ex_options))
   \<and> map_of (snd (resolveVariables ex_lib ex_required_config (ex_resolve_world 300001)
                    ex_first_cache [] ex_options))
        (generateContextCacheKey ex_lib [] ex_options) = None
   \<and> fst (resolveVariables ex_lib ex_required_config (ex_resolve_world 300002)
            (snd (resolveVariables ex_lib ex_required_config (ex_resolve_world 300001)
                    ex_first_cache [] ex_options)) [] ex_options)
       = build_context ex_lib ex_required_config (ex_resolve_world 300002) [] ex_options"
proof -
  let ?r = "resolveVariables ex_lib ex_required_config (ex_resolve_world 300001) ex_first_cache
               [] ex_options"
  have thrown: "isl (fst ?r)"
    by code_simp
  then obtain err where "fst ?r = Inl err"
    by (cases "fst ?r") auto
  then have run: "?r = (Inl err, snd ?r)"
    by (simp add: prod_eq_iff)
  have caching: "enableCaching ex_required_config"
    by (simp add: ex_required_config_def)
  from resolveVariables_throw_inserts_nothing [OF run, of "ex_resolve_world 300002"] caching thrown
  show ?thesis by blast
qed

text \<open>
  An entry that a call adds to the cache or changes in it lies under the key of the
  call and holds the context that the call returns, after the whole resolution has
  succeeded.
\<close>

lemma resolveVariables_inserts_after_success:
  assumes run: "resolveVariables lib config w ccache uv opts = (res, ccache')"
    and new: "map_of ccache' k = Some e" and old: "map_of ccache k \<noteq> Some e"
  shows "k = generateContextCacheKey lib uv opts \<and> res = Inr (cached_context e)
         \<and> build_context lib config w uv opts = Inr (cached_context e)"
proof -
  let ?key = "generateContextCacheKey lib uv opts"
  have del: "map_of (AList.delete ?key ccache) k = Some e \<Longrightarrow> map_of ccache k = Some e"
    by (simp add: delete_conv' split: if_splits)
  show ?thesis
  proof (cases "enableCaching config")
    case False
    with run new old show ?thesis
      by (auto simp: resolveVariables_def Let_def split: sum.splits)
  next
    case True
    obtain hit c1 where looked: "getCachedContext (t_lookup w) ?key ccache = (hit, c1)"
      by (cases "getCachedContext (t_lookup w) ?key ccache")
    then have c1: "map_of c1 k = Some e \<Longrightarrow> map_of ccache k = Some e"
      using del by (auto simp: getCachedContext_def split: option.splits if_splits)
    show ?thesis
    proof (cases hit)
      case (Some cached)
      with run True looked have "ccache' = c1"
        by (simp add: resolveVariables_def Let_def)
      with new old c1 show ?thesis by simp
    next
      case None
      show ?thesis
      proof (cases "build_context lib config w uv opts")
        case (Inl err)
        with run True looked None have "ccache' = c1"
          by (simp add: resolveVariables_def Let_def)
        with new old c1 show ?thesis by simp
      next
        case (Inr ctx)
        with run True looked None have r: "res = Inr ctx"
          and c: "ccache' = cacheContext config (t_cache w) ?key ctx c1"
          by (simp_all add: resolveVariables_def Let_def)
        from new old c1 have "k = ?key \<and> cached_context e = ctx"
          unfolding c cacheContext_def by (auto simp: update_conv' split: if_splits)
        with r Inr show ?thesis by simp
      qed
    qed
  qed
qed

text \<open>
  The two calls of the example above have the same key: the names in the array passed to
  \<open>JSON.stringify\<close> are those of the variables and of the options, and the object that
  is written has the properties \<open>userVariables\<close> and \<open>options\<close>, so it is written as \<open>{}\<close>.
\<close>

lemma context_keys_collide:
  "generateContextCacheKey ex_lib [(''projectName'', JStr ''demo'')] ex_options
     = generateContextCacheKey ex_lib [] ex_options"
  by code_simp

end
